theory Spec2Isabelle
  imports Complex_Main "HOL-Library.Countable" "HOL-Library.Char_ord" "HOL-Library.List_Lexorder"
begin

section \<open>Byte arrays, strings and JSON values\<close>

text \<open>
  A \<^verbatim>\<open>QByteArray\<close> and a \<^verbatim>\<open>QString\<close> are both modelled as a list of characters. The
  conversions between the two (\<^verbatim>\<open>toUtf8\<close>, \<^verbatim>\<open>toLocal8Bit\<close>, \<^verbatim>\<open>fromUtf8\<close>) are the identity in
  this model. \<^verbatim>\<open>isEmpty()\<close> is \<open>= []\<close>, \<^verbatim>\<open>size()\<close> is \<open>length\<close>, \<^verbatim>\<open>clear()\<close> stores \<open>[]\<close>.
\<close>

type_synonym bytes = string

text \<open>
  \<^verbatim>\<open>QJsonValue\<close>. An object is the list of its members in the order in which Qt iterates
  them, which is the ascending order of the keys. The accessors below are Qt's lenient
  ones: a value of another type converts to the empty object, array or string, or to 0.
  A \<^verbatim>\<open>QJsonDocument\<close> is the value it holds, \<open>JNull\<close> for the null document.
\<close>

datatype json =
    JNull
  | JBool bool
  | JNum rat
  | JStr string
  | JArr "json list"
  | JObj "(string \<times> json) list"

definition toObject :: "json \<Rightarrow> (string \<times> json) list" where
  "toObject j = (case j of JObj members \<Rightarrow> members | _ \<Rightarrow> [])"

definition toArray :: "json \<Rightarrow> json list" where
  "toArray j = (case j of JArr elements \<Rightarrow> elements | _ \<Rightarrow> [])"

definition toString :: "json \<Rightarrow> string" where
  "toString j = (case j of JStr s \<Rightarrow> s | _ \<Rightarrow> [])"

text \<open>
  \<^verbatim>\<open>QJsonValue::toInt()\<close>: the number when it is whole and fits a 32-bit \<^verbatim>\<open>int\<close>, the default
  0 otherwise.
\<close>

definition toInt :: "json \<Rightarrow> int" where
  "toInt j =
     (case j of
        JNum r \<Rightarrow>
          (if of_int \<lfloor>r\<rfloor> = r \<and> - 2147483648 \<le> \<lfloor>r\<rfloor> \<and> \<lfloor>r\<rfloor> \<le> 2147483647 then \<lfloor>r\<rfloor> else 0)
      | _ \<Rightarrow> 0)"

text \<open>\<^verbatim>\<open>QJsonObject::value(key)\<close> and \<^verbatim>\<open>operator[]\<close>: the member, or the null value.\<close>

definition obj_value :: "(string \<times> json) list \<Rightarrow> string \<Rightarrow> json" where
  "obj_value members key = (case map_of members key of Some v \<Rightarrow> v | None \<Rightarrow> JNull)"

definition obj_contains :: "(string \<times> json) list \<Rightarrow> string \<Rightarrow> bool" where
  "obj_contains members key = (map_of members key \<noteq> None)"

text \<open>
  \<^verbatim>\<open>QJsonObject::insert(key, value)\<close>: an existing member of that key is replaced, a new
  member is put at its place in the order of the keys.
\<close>

fun obj_insert :: "string \<Rightarrow> json \<Rightarrow> (string \<times> json) list \<Rightarrow> (string \<times> json) list" where
  "obj_insert key v [] = [(key, v)]"
| "obj_insert key v ((k, w) # members) =
     (if key = k then (key, v) # members
      else if key < k then (key, v) # (k, w) # members
      else (k, w) # obj_insert key v members)"

text \<open>
  \<^verbatim>\<open>QJsonValue::toVariant().toString()\<close>: the text of a string, and of a boolean; no text
  for null, an array or an object. The text of a number is left to the environment.
\<close>

definition variantToString :: "(rat \<Rightarrow> string) \<Rightarrow> json \<Rightarrow> string" where
  "variantToString numberToString j =
     (case j of
        JStr s \<Rightarrow> s
      | JBool b \<Rightarrow> (if b then ''true'' else ''false'')
      | JNum r \<Rightarrow> numberToString r
      | _ \<Rightarrow> [])"

text \<open>
  \<^verbatim>\<open>QJsonValue::fromVariant\<close> of a byte array: the string of its text, and the null value
  when the text is empty.
\<close>

definition fromVariant :: "bytes \<Rightarrow> json" where
  "fromVariant b = (if b = [] then JNull else JStr b)"

section \<open>External collaborators\<close>

text \<open>
  The cryptographic helpers (\<^verbatim>\<open>EncryptionHelper\<close>, \<^verbatim>\<open>calcSha256\<close>, \<^verbatim>\<open>QCryptographicHash\<close>),
  the codecs of Qt and KArchive (Base64, JSON text, gzip), \<^verbatim>\<open>QSslCertificate\<close> and the
  iteration order of Qt's hashed containers are not part of the sources. The functions
  of the program take them as the fields of an environment, and every theorem holds
  for every environment, or says which law of the helpers it needs.
\<close>

record Env =
  calcSha256 :: "bytes \<Rightarrow> bytes"
  sha256Hex :: "bytes \<Rightarrow> bytes"
  toBase64 :: "bytes \<Rightarrow> bytes"
  fromBase64 :: "bytes \<Rightarrow> bytes"
  encryptStringAsymmetric :: "bytes \<Rightarrow> bytes \<Rightarrow> bytes"
  decryptStringAsymmetric :: "bytes \<Rightarrow> bytes \<Rightarrow> bytes"
  encryptStringSymmetric :: "bytes \<Rightarrow> bytes \<Rightarrow> bytes"
  decryptStringSymmetric :: "bytes \<Rightarrow> bytes \<Rightarrow> bytes"
  dataEncryption :: "bytes \<Rightarrow> bytes \<Rightarrow> bytes \<Rightarrow> bytes \<times> bytes"
  dataDecryption :: "bytes \<Rightarrow> bytes \<Rightarrow> bytes \<Rightarrow> bytes option"
  gzipCompress :: "bytes \<Rightarrow> bytes option"
  gzipUncompress :: "bytes \<Rightarrow> bytes option"
  fromJson :: "bytes \<Rightarrow> json"
  toJsonCompact :: "json \<Rightarrow> bytes"
  toJsonIndented :: "json \<Rightarrow> bytes"
  certificateIsNull :: "bytes \<Rightarrow> bool"
  certificatePublicKey :: "bytes \<Rightarrow> bytes"
  hashOrder :: "string set \<Rightarrow> string list"
  numberToString :: "rat \<Rightarrow> string"

text \<open>
  A \<^verbatim>\<open>QSslCertificate\<close> is modelled by its PEM text: \<open>certificateIsNull env pem\<close> says that
  the text holds no certificate, and \<open>certificatePublicKey env pem\<close> is the public key
  of the certificate, empty for a null key. \<open>hashOrder env S\<close> is the order in which
  a \<^verbatim>\<open>QSet\<close> or the keys of a \<^verbatim>\<open>QHash\<close> with the elements \<open>S\<close> are iterated.
\<close>

section \<open>FolderMetadata\<close>

record FolderUser =
  userId :: string
  certificatePem :: bytes
  encryptedMetadataKey :: bytes
  encryptedFiledropKey :: bytes

record EncryptedFile =
  encryptionKey :: bytes
  mimetype :: bytes
  initializationVector :: bytes
  authenticationTag :: bytes
  encryptedFilename :: string
  originalFilename :: string

text \<open>
  The enumeration \<^verbatim>\<open>RequiredMetadataVersion\<close> is declared in a header that is not part of
  the sources. Its enumerators are numbered in the order in which
  \<^verbatim>\<open>requiredMetadataVersionNumeric\<close> lists them; \<open>versionInt\<close> is the \<^verbatim>\<open>static_cast<int>\<close>.
\<close>

datatype RequiredMetadataVersion = Version1 | Version1_2 | Version2_0

fun versionInt :: "RequiredMetadataVersion \<Rightarrow> int" where
  "versionInt Version1 = 0"
| "versionInt Version1_2 = 1"
| "versionInt Version2_0 = 2"

text \<open>The part of the account that the metadata code reads.\<close>

record Account =
  davUser :: string
  e2ePrivateKey :: bytes
  e2eCertificate :: bytes
  e2eMnemonic :: string
  shouldSkipE2eeMetadataChecksumValidation :: bool

record FolderMetadata =
  account :: Account
  requiredMetadataVersion :: RequiredMetadataVersion
  topLevelFolderPath :: string
  metadataKeyForEncryption :: bytes
  metadataKeyForDecryption :: bytes
  keyChecksums :: "bytes set"
  versionFromMetadata :: int
  files :: "EncryptedFile list"
  folderUsers :: "string \<rightharpoonup> FolderUser"
  metadataNonce :: bytes
  fileDropCipherTextEncryptedAndBase64 :: bytes
  fileDropMetadataAuthenticationTag :: bytes
  fileDropMetadataNonce :: bytes
  fileDropKey :: bytes
  fileDrop :: "(string \<times> json) list"
  fileDropFromServer :: "(string \<times> json) list"
  migrationNeeded :: bool
  isMetadataSetupFlag :: bool

definition metadataKeySize :: nat where
  "metadataKeySize = 16"

definition isTopLevelFolder :: "FolderMetadata \<Rightarrow> bool" where
  "isTopLevelFolder m = (topLevelFolderPath m = ''/'')"

text \<open>
  \<^verbatim>\<open>FolderMetadata::verifyMetadataKey\<close>. The key is cut to its first 16 bytes before it is
  hashed.
\<close>

definition verifyMetadataKey :: "Env \<Rightarrow> FolderMetadata \<Rightarrow> bytes \<Rightarrow> bool" where
  "verifyMetadataKey env m metadataKey =
     (if versionFromMetadata m < 2 then True
      else if metadataKey = [] \<or> length metadataKey < metadataKeySize then False
      else
        (let metadataKeyLimitedLength = take metadataKeySize metadataKey
         in calcSha256 env metadataKeyLimitedLength \<in> keyChecksums m \<or> keyChecksums m = {}))"

text \<open>
  \<^verbatim>\<open>FolderMetadata::metadataVersion\<close> compares the version read from the document with
  the literals \<^verbatim>\<open>1.2f\<close> and \<^verbatim>\<open>2.0f\<close>. Whatever the version, the result is one of the three
  enumerators: a version below 1.0 gives \<open>Version1\<close>.
\<close>

definition metadataVersion :: "FolderMetadata \<Rightarrow> RequiredMetadataVersion" where
  "metadataVersion m =
     (if (of_int (versionFromMetadata m) :: rat) < 12 / 10 then Version1
      else if (of_int (versionFromMetadata m) :: rat) < 2 then Version1_2
      else Version2_0)"

text \<open>
  \<^verbatim>\<open>requiredMetadataVersionNumeric\<close> returns a \<^verbatim>\<open>float\<close>; the value of the literal \<^verbatim>\<open>1.2f\<close> is
  \<open>5033165 / 4194304\<close>.
\<close>

definition requiredMetadataVersionNumeric :: "FolderMetadata \<Rightarrow> rat" where
  "requiredMetadataVersionNumeric m =
     (case requiredMetadataVersion m of
        Version1 \<Rightarrow> 1
      | Version1_2 \<Rightarrow> 5033165 / 4194304
      | Version2_0 \<Rightarrow> 2)"

definition isVersion2AndUp :: "FolderMetadata \<Rightarrow> bool" where
  "isVersion2AndUp m = (versionInt (metadataVersion m) \<ge> versionInt Version2_0)"

definition isFileDropPresent :: "FolderMetadata \<Rightarrow> bool" where
  "isFileDropPresent m = (fileDropCipherTextEncryptedAndBase64 m \<noteq> [])"

definition encryptedMetadataNeedUpdate :: "FolderMetadata \<Rightarrow> bool" where
  "encryptedMetadataNeedUpdate m = migrationNeeded m"

text \<open>
  \<^verbatim>\<open>encryptData(data, key)\<close> and \<^verbatim>\<open>decryptData(data)\<close>: RSA-OAEP under a public key, and under
  the private key of the account. Reading the PEM text of the key into OpenSSL is part
  of the helper.
\<close>

definition encryptData :: "Env \<Rightarrow> bytes \<Rightarrow> bytes \<Rightarrow> bytes" where
  "encryptData env dat key = encryptStringAsymmetric env key dat"

definition decryptData :: "Env \<Rightarrow> FolderMetadata \<Rightarrow> bytes \<Rightarrow> bytes" where
  "decryptData env m dat =
     (let decryptResult = decryptStringAsymmetric env (e2ePrivateKey (account m)) dat
      in if decryptResult = [] then [] else decryptResult)"

definition decryptJsonObject :: "Env \<Rightarrow> bytes \<Rightarrow> bytes \<Rightarrow> bytes" where
  "decryptJsonObject env encryptedMetadata pass = decryptStringSymmetric env pass encryptedMetadata"

text \<open>
  \<^verbatim>\<open>gZipEncryptAndBase64Encode\<close> returns the Base64 text and the authentication tag; when
  the gzip device fails it returns no text and leaves the caller's tag as it was.
  \<^verbatim>\<open>base64DecodeDecryptAndGzipUnZip\<close> returns no bytes when AES-GCM or gzip fails.
\<close>

definition gZipEncryptAndBase64Encode ::
    "Env \<Rightarrow> bytes \<Rightarrow> bytes \<Rightarrow> bytes \<Rightarrow> bytes \<Rightarrow> bytes \<times> bytes" where
  "gZipEncryptAndBase64Encode env key inputData iv returnTag =
     (case gzipCompress env inputData of
        None \<Rightarrow> ([], returnTag)
      | Some gZippedAndNotEncrypted \<Rightarrow>
          (let (outputData, tag) = dataEncryption env key iv gZippedAndNotEncrypted
           in (toBase64 env outputData, tag)))"

definition base64DecodeDecryptAndGzipUnZip :: "Env \<Rightarrow> bytes \<Rightarrow> bytes \<Rightarrow> bytes \<Rightarrow> bytes" where
  "base64DecodeDecryptAndGzipUnZip env key inputData iv =
     (case dataDecryption env key iv (fromBase64 env inputData) of
        None \<Rightarrow> []
      | Some decryptedAndGzipped \<Rightarrow>
          (case gzipUncompress env decryptedAndGzipped of
             None \<Rightarrow> []
           | Some decryptedAndUnGzipped \<Rightarrow> decryptedAndUnGzipped))"

definition emptyEncryptedFile :: EncryptedFile where
  "emptyEncryptedFile =
     \<lparr>encryptionKey = [], mimetype = [], initializationVector = [], authenticationTag = [],
      encryptedFilename = [], originalFilename = []\<rparr>"

definition parseEncryptedFileFromJson :: "Env \<Rightarrow> string \<Rightarrow> json \<Rightarrow> EncryptedFile" where
  "parseEncryptedFileFromJson env encryptedName fileJSON =
     (let fileObj = toObject fileJSON
      in if toString (obj_value fileObj ''filename'') = [] then emptyEncryptedFile
         else
           (let mt = toString (obj_value fileObj ''mimetype'')
            in \<lparr>encryptionKey = fromBase64 env (toString (obj_value fileObj ''key'')),
                mimetype = (if mt = ''inode/directory'' then ''httpd/unix-directory'' else mt),
                initializationVector =
                  fromBase64 env (toString (obj_value fileObj ''initializationVector'')),
                authenticationTag =
                  fromBase64 env (toString (obj_value fileObj ''authenticationTag'')),
                encryptedFilename = encryptedName,
                originalFilename = toString (obj_value fileObj ''filename'')\<rparr>))"

definition convertFileToJsonObject :: "Env \<Rightarrow> EncryptedFile \<Rightarrow> (string \<times> json) list" where
  "convertFileToJsonObject env encryptedFile =
     obj_insert ''authenticationTag'' (JStr (toBase64 env (authenticationTag encryptedFile)))
       (obj_insert ''initializationVector''
          (JStr (toBase64 env (initializationVector encryptedFile)))
          (obj_insert ''mimetype'' (JStr (mimetype encryptedFile))
             (obj_insert ''filename'' (JStr (originalFilename encryptedFile))
                (obj_insert ''key'' (JStr (toBase64 env (encryptionKey encryptedFile))) []))))"

definition metadataStringFromOCsDocument :: "json \<Rightarrow> string" where
  "metadataStringFromOCsDocument ocsDoc =
     toString (obj_value (toObject (obj_value (toObject (obj_value (toObject ocsDoc) ''ocs''))
       ''data'')) ''meta-data'')"

definition setupVersionFromExistingMetadata :: "Env \<Rightarrow> FolderMetadata \<Rightarrow> bytes \<Rightarrow> FolderMetadata" where
  "setupVersionFromExistingMetadata env m metadata =
     (let doc = fromJson env metadata;
          metaDataStr = metadataStringFromOCsDocument doc;
          metaDataDoc = fromJson env metaDataStr;
          metadataObj = toObject (obj_value (toObject metaDataDoc) ''metadata'');
          m1 = (if obj_contains metadataObj ''version''
                then m\<lparr>versionFromMetadata := toInt (obj_value metadataObj ''version'')\<rparr>
                else m)
      in if obj_contains (toObject metaDataDoc) ''version''
         then m1\<lparr>versionFromMetadata := toInt (obj_value (toObject metaDataDoc) ''version'')\<rparr>
         else m1)"

subsection \<open>Key rotation\<close>

text \<open>
  \<^verbatim>\<open>createNewMetadataKeyForEncryption\<close>. The bytes that
  \<^verbatim>\<open>EncryptionHelper::generateRandom(metadataKeySize)\<close> returns are the argument \<open>random\<close>.
\<close>

definition createNewMetadataKeyForEncryption :: "Env \<Rightarrow> bytes \<Rightarrow> FolderMetadata \<Rightarrow> FolderMetadata" where
  "createNewMetadataKeyForEncryption env random m =
     (if \<not> isTopLevelFolder m then m
      else
        (let m1 = (if metadataKeyForEncryption m \<noteq> []
                   then m\<lparr>keyChecksums :=
                          keyChecksums m - {calcSha256 env (metadataKeyForEncryption m)}\<rparr>
                   else m);
             m2 = m1\<lparr>metadataKeyForEncryption := random\<rparr>
         in if metadataKeyForEncryption m2 \<noteq> []
            then m2\<lparr>keyChecksums :=
                      insert (calcSha256 env (metadataKeyForEncryption m2)) (keyChecksums m2)\<rparr>
            else m2))"

text \<open>
  The body of the loop of \<^verbatim>\<open>updateUsersEncryptedMetadataKey\<close>: a folder user whose
  certificate is null or has a null public key, or for whom the encryption gives no
  bytes, is skipped and keeps the wrapped key it had.
\<close>

definition updateFolderUser :: "Env \<Rightarrow> bytes \<Rightarrow> FolderUser \<Rightarrow> FolderUser" where
  "updateFolderUser env key folderUser =
     (let publicKey = certificatePublicKey env (certificatePem folderUser)
      in if certificateIsNull env (certificatePem folderUser) \<or> publicKey = [] then folderUser
         else
           (let encrypted = encryptData env key publicKey
            in if encrypted = [] then folderUser
               else folderUser\<lparr>encryptedMetadataKey := encrypted\<rparr>))"

text \<open>
  The loop stores the updated user under the key it is iterating, so it acts on each
  entry of the hash on its own, in whatever order the hash is iterated.
\<close>

definition updateUsersEncryptedMetadataKey :: "Env \<Rightarrow> FolderMetadata \<Rightarrow> FolderMetadata" where
  "updateUsersEncryptedMetadataKey env m =
     (if \<not> isTopLevelFolder m then m
      else if metadataKeyForEncryption m = [] then m
      else m\<lparr>folderUsers :=
             (\<lambda>key. map_option (updateFolderUser env (metadataKeyForEncryption m))
                      (folderUsers m key))\<rparr>)"

text \<open>
  \<^verbatim>\<open>addUser\<close> and \<^verbatim>\<open>removeUser\<close> return their result and the object as they leave it. The
  assertions (\<^verbatim>\<open>Q_ASSERT\<close>) are compiled out of a release build; the checks that follow
  them in the source are the branches here.
\<close>

definition addUser ::
    "Env \<Rightarrow> bytes \<Rightarrow> FolderMetadata \<Rightarrow> string \<Rightarrow> bytes \<Rightarrow> bool \<times> FolderMetadata" where
  "addUser env random m user certificate =
     (if \<not> isTopLevelFolder m then (False, m)
      else
        (let publicKey = certificatePublicKey env certificate
         in if user = [] \<or> certificateIsNull env certificate \<or> publicKey = [] then (False, m)
            else
              (let m1 = createNewMetadataKeyForEncryption env random m;
                   newFolderUser =
                     \<lparr>userId = user, certificatePem = certificate,
                      encryptedMetadataKey =
                        encryptData env (metadataKeyForEncryption m1) publicKey,
                      encryptedFiledropKey = []\<rparr>;
                   m2 = m1\<lparr>folderUsers := (folderUsers m1)(user \<mapsto> newFolderUser)\<rparr>
               in (True, updateUsersEncryptedMetadataKey env m2))))"

definition removeUser :: "Env \<Rightarrow> bytes \<Rightarrow> FolderMetadata \<Rightarrow> string \<Rightarrow> bool \<times> FolderMetadata" where
  "removeUser env random m user =
     (if \<not> isTopLevelFolder m then (False, m)
      else if user = [] then (False, m)
      else
        (let m1 = createNewMetadataKeyForEncryption env random m;
             m2 = m1\<lparr>folderUsers := (folderUsers m1)(user := None)\<rparr>
         in (True, updateUsersEncryptedMetadataKey env m2)))"

subsection \<open>File drop\<close>

text \<open>The loop over the \<^verbatim>\<open>files\<close> object that appends every entry with a file name.\<close>

fun appendParsedFiles :: "Env \<Rightarrow> (string \<times> json) list \<Rightarrow> EncryptedFile list \<Rightarrow> EncryptedFile list" where
  "appendParsedFiles env [] fs = fs"
| "appendParsedFiles env ((key, v) # members) fs =
     (let parsedEncryptedFile = parseEncryptedFileFromJson env key v
      in appendParsedFiles env members
           (if originalFilename parsedEncryptedFile \<noteq> [] then fs @ [parsedEncryptedFile]
            else fs))"

text \<open>
  \<^verbatim>\<open>moveFromFileDropToFiles\<close>. Its loop over the \<^verbatim>\<open>folders\<close> object builds a file entry for
  each named folder and drops it, so only the \<^verbatim>\<open>files\<close> object reaches the list.
\<close>

definition moveFromFileDropToFiles :: "Env \<Rightarrow> FolderMetadata \<Rightarrow> bool \<times> FolderMetadata" where
  "moveFromFileDropToFiles env m =
     (if fileDropCipherTextEncryptedAndBase64 m = [] \<or> metadataKeyForEncryption m = []
         \<or> metadataNonce m = []
      then (False, m)
      else
        (let cipherTextDecrypted =
               base64DecodeDecryptAndGzipUnZip env (metadataKeyForEncryption m)
                 (fileDropCipherTextEncryptedAndBase64 m) (metadataNonce m);
             cipherTextDocument = fromJson env cipherTextDecrypted;
             filesObj = toObject (obj_value (toObject cipherTextDocument) ''files'');
             m1 = m\<lparr>files := appendParsedFiles env filesObj (files m)\<rparr>
         in (True, m1\<lparr>fileDropCipherTextEncryptedAndBase64 := []\<rparr>)))"

subsection \<open>Serialising the metadata\<close>

text \<open>
  The loop of \<^verbatim>\<open>encryptedMetadata\<close> over the files: an entry without a mime type, or with
  one of the two directory mime types, goes into the \<^verbatim>\<open>folders\<close> object with its two names
  only; every other entry goes into the \<^verbatim>\<open>files\<close> object. \<open>None\<close> is the early return
  for a file whose JSON object is empty.
\<close>

definition isDirectoryEntry :: "EncryptedFile \<Rightarrow> bool" where
  "isDirectoryEntry f =
     (mimetype f = [] \<or> mimetype f = ''inode/directory'' \<or> mimetype f = ''httpd/unix-directory'')"

fun filesToJson ::
    "Env \<Rightarrow> EncryptedFile list \<Rightarrow> (string \<times> json) list \<Rightarrow> (string \<times> json) list
       \<Rightarrow> ((string \<times> json) list \<times> (string \<times> json) list) option" where
  "filesToJson env [] filesObj foldersObj = Some (filesObj, foldersObj)"
| "filesToJson env (f # rest) filesObj foldersObj =
     (let file = convertFileToJsonObject env f
      in if file = [] then None
         else
           (let isDirectory = isDirectoryEntry f
            in if isDirectory
               then filesToJson env rest filesObj
                      (obj_insert (encryptedFilename f) (JStr (originalFilename f)) foldersObj)
               else filesToJson env rest
                      (obj_insert (encryptedFilename f) (JObj file) filesObj) foldersObj))"

definition folderUserToJson :: "Env \<Rightarrow> FolderUser \<Rightarrow> json" where
  "folderUserToJson env folderUser =
     JObj (obj_insert ''encryptedFiledropKey''
             (fromVariant (toBase64 env (encryptedFiledropKey folderUser)))
          (obj_insert ''encryptedMetadataKey''
             (fromVariant (toBase64 env (encryptedMetadataKey folderUser)))
          (obj_insert ''certificate'' (fromVariant (certificatePem folderUser))
          (obj_insert ''userId'' (JStr (userId folderUser)) []))))"

text \<open>
  \<^verbatim>\<open>FolderMetadata::encryptedMetadata\<close> returns the document, empty when the generation
  fails, and the object, which it changes when it has to create a metadata key.
  \<open>random\<close> are the bytes of the random generator for that key and
  \<open>iv\<close> those for the nonce. The source also decrypts the ciphertext it
  has just made and drops the result; that step has no effect and is left out.
\<close>

definition encryptedMetadata ::
    "Env \<Rightarrow> bytes \<Rightarrow> bytes \<Rightarrow> FolderMetadata \<Rightarrow> bytes \<times> FolderMetadata" where
  "encryptedMetadata env random iv m0 =
     (let m = (if isTopLevelFolder m0 \<and> folderUsers m0 = Map.empty
                  \<and> versionInt (metadataVersion m0) < versionInt Version2_0
               then createNewMetadataKeyForEncryption env random m0 else m0)
      in if metadataKeyForEncryption m = [] then ([], m)
         else
           (case filesToJson env (files m) [] [] of
              None \<Rightarrow> ([], m)
            | Some (filesObj, foldersObj) \<Rightarrow>
                (let keyChecksumsArray =
                       (if isTopLevelFolder m then map fromVariant (hashOrder env (keyChecksums m))
                        else []);
                     cipherText =
                       obj_insert ''folders'' (JObj foldersObj)
                         (obj_insert ''files'' (JObj filesObj) []);
                     isChecksumsArrayValid =
                       ((\<not> isTopLevelFolder m \<and> keyChecksumsArray = [])
                         \<or> (isTopLevelFolder m \<and> keyChecksumsArray \<noteq> []))
                 in if \<not> isChecksumsArrayValid then ([], m)
                    else
                      (let cipherTextDoc =
                             JObj (if keyChecksumsArray \<noteq> []
                                   then obj_insert ''keyChecksums'' (JArr keyChecksumsArray) cipherText
                                   else cipherText);
                           (encCipherText, tag) =
                             gZipEncryptAndBase64Encode env (metadataKeyForEncryption m)
                               (toJsonCompact env cipherTextDoc) iv [];
                           metadata =
                             obj_insert ''authenticationTag'' (fromVariant (toBase64 env tag))
                               (obj_insert ''nonce'' (fromVariant (toBase64 env iv))
                                  (obj_insert ''ciphertext'' (fromVariant encCipherText) []));
                           metaObject =
                             obj_insert ''version'' (JNum (requiredMetadataVersionNumeric m))
                               (obj_insert ''metadata'' (JObj metadata) []);
                           folderUsersArray =
                             (if isTopLevelFolder m
                              then List.map_filter
                                     (\<lambda>u. map_option (folderUserToJson env) (folderUsers m u))
                                     (hashOrder env (dom (folderUsers m)))
                              else []);
                           isFolderUsersArrayValid =
                             ((\<not> isTopLevelFolder m \<and> folderUsersArray = [])
                               \<or> (isTopLevelFolder m \<and> folderUsersArray \<noteq> []))
                       in if \<not> isFolderUsersArrayValid then ([], m)
                          else
                            (let metaObject1 =
                                   (if folderUsersArray \<noteq> []
                                    then obj_insert ''users'' (JArr folderUsersArray) metaObject
                                    else metaObject);
                                 fileDropMetadata =
                                   obj_insert ''authenticationTag''
                                     (fromVariant (toBase64 env (fileDropMetadataAuthenticationTag m)))
                                     (obj_insert ''nonce''
                                        (fromVariant (toBase64 env (fileDropMetadataNonce m)))
                                        (obj_insert ''ciphertext''
                                           (fromVariant (fileDropCipherTextEncryptedAndBase64 m)) []));
                                 metaObject2 =
                                   (if fileDropCipherTextEncryptedAndBase64 m \<noteq> []
                                    then obj_insert ''filedrop'' (JObj fileDropMetadata) metaObject1
                                    else metaObject1)
                             in (toJsonIndented env (JObj metaObject2), m))))))"

subsection \<open>Parsing existing metadata\<close>

text \<open>
  \<^verbatim>\<open>computeMetadataKeyChecksum\<close>: SHA-256, in hexadecimal, of the mnemonic without its
  spaces, the encrypted file names in ascending order, and the metadata key.
\<close>

definition computeMetadataKeyChecksum :: "Env \<Rightarrow> FolderMetadata \<Rightarrow> bytes \<Rightarrow> bytes" where
  "computeMetadataKeyChecksum env m metadataKey =
     sha256Hex env
       (filter (\<lambda>c. c \<noteq> CHR '' '') (e2eMnemonic (account m))
        @ concat (map encryptedFilename (sort_key encryptedFilename (files m)))
        @ metadataKey)"

definition checkMetadataKeyChecksum :: "Env \<Rightarrow> FolderMetadata \<Rightarrow> bytes \<Rightarrow> bytes \<Rightarrow> bool" where
  "checkMetadataKeyChecksum env m metadataKey metadataKeyChecksum =
     (computeMetadataKeyChecksum env m metadataKey = metadataKeyChecksum)"

text \<open>The loop of the legacy format over the \<^verbatim>\<open>files\<close> object.\<close>

fun appendLegacyFiles ::
    "Env \<Rightarrow> bytes \<Rightarrow> (string \<times> json) list \<Rightarrow> EncryptedFile list \<Rightarrow> EncryptedFile list" where
  "appendLegacyFiles env key [] fs = fs"
| "appendLegacyFiles env key ((name, v) # members) fs =
     (let fileObj = toObject v;
          encryptedFile = toString (obj_value fileObj ''encrypted'');
          decryptedFile = decryptJsonObject env encryptedFile key;
          decryptedFileObj = toObject (fromJson env decryptedFile)
      in if toString (obj_value decryptedFileObj ''filename'') = []
         then appendLegacyFiles env key members fs
         else
           (let mt = toString (obj_value decryptedFileObj ''mimetype'');
                file =
                  \<lparr>encryptionKey = fromBase64 env (toString (obj_value decryptedFileObj ''key'')),
                   mimetype = (if mt = ''inode/directory'' then ''httpd/unix-directory'' else mt),
                   initializationVector =
                     fromBase64 env (toString (obj_value fileObj ''initializationVector'')),
                   authenticationTag =
                     fromBase64 env (toString (obj_value fileObj ''authenticationTag'')),
                   encryptedFilename = name,
                   originalFilename = toString (obj_value decryptedFileObj ''filename'')\<rparr>
            in appendLegacyFiles env key members (fs @ [file])))"

text \<open>
  Version 1.0 of the format: the key is the value of the last member of the
  \<^verbatim>\<open>metadataKeys\<close> object, which is not empty when this is called.
\<close>

definition keyFromMetadataKeys :: "Env \<Rightarrow> FolderMetadata \<Rightarrow> (string \<times> json) list \<Rightarrow> FolderMetadata" where
  "keyFromMetadataKeys env m metadataKeys =
     (let lastMetadataKeyFromJson = fst (last metadataKeys)
      in if lastMetadataKeyFromJson = [] then m
         else
           (let lastMetadataKeyValueFromJson =
                  toString (obj_value metadataKeys lastMetadataKeyFromJson)
            in if lastMetadataKeyValueFromJson = [] then m
               else
                 (let lastMetadataKeyValueFromJsonBase64 =
                        decryptData env m (fromBase64 env lastMetadataKeyValueFromJson)
                  in if lastMetadataKeyValueFromJsonBase64 = [] then m
                     else m\<lparr>metadataKeyForDecryption :=
                            fromBase64 env (fromBase64 env lastMetadataKeyValueFromJsonBase64)\<rparr>)))"

text \<open>
  \<^verbatim>\<open>setupExistingLegacyMetadataForMigration\<close>. Computing the checksum strips the spaces
  from the mnemonic that the account holds.
\<close>

definition setupExistingLegacyMetadataForMigration ::
    "Env \<Rightarrow> FolderMetadata \<Rightarrow> bytes \<Rightarrow> FolderMetadata" where
  "setupExistingLegacyMetadataForMigration env m0 metadata =
     (let doc = fromJson env metadata;
          metaDataStr = metadataStringFromOCsDocument doc;
          metaDataDoc = fromJson env metaDataStr;
          metadataObj = toObject (obj_value (toObject metaDataDoc) ''metadata'');
          m1 = m0\<lparr>metadataKeyForDecryption := []\<rparr>;
          metadataKeyFromJson = toString (obj_value metadataObj ''metadataKey'');
          decryptedMetadataKeyBase64 =
            (if metadataKeyFromJson \<noteq> []
             then decryptData env m1 (fromBase64 env metadataKeyFromJson) else []);
          m2 = (if decryptedMetadataKeyBase64 \<noteq> []
                then m1\<lparr>metadataKeyForDecryption :=
                         fromBase64 env (fromBase64 env decryptedMetadataKeyBase64)\<rparr>
                else m1);
          parseVersion1 =
            (metadataKeyForDecryption m2 = []
              \<and> versionInt (metadataVersion m2) < versionInt (requiredMetadataVersion m2));
          metadataKeys = toObject (obj_value metadataObj ''metadataKeys'')
      in if parseVersion1 \<and> metadataKeys = [] then m2
         else
           (let m3 = (if parseVersion1 then keyFromMetadataKeys env m2 metadataKeys else m2)
            in if metadataKeyForDecryption m3 = [] then m3
               else
                 (let m4 = (if metadataKeyForEncryption m3 = []
                            then m3\<lparr>metadataKeyForEncryption := metadataKeyForDecryption m3\<rparr>
                            else m3);
                      filesObj = toObject (obj_value (toObject metaDataDoc) ''files'');
                      metadataKey = toString (obj_value metadataObj ''metadataKey'');
                      metadataKeyChecksum = toString (obj_value metadataObj ''checksum'');
                      m5 = m4\<lparr>fileDrop := toObject (obj_value (toObject metaDataDoc) ''filedrop''),
                              fileDropFromServer :=
                                toObject (obj_value (toObject metaDataDoc) ''filedrop'')\<rparr>;
                      m6 = m5\<lparr>files :=
                              appendLegacyFiles env (metadataKeyForDecryption m5) filesObj (files m5)\<rparr>;
                      checksumMatches =
                        checkMetadataKeyChecksum env m6 metadataKey metadataKeyChecksum;
                      m7 = m6\<lparr>account := (account m6)
                              \<lparr>e2eMnemonic :=
                                 filter (\<lambda>c. c \<noteq> CHR '' '') (e2eMnemonic (account m6))\<rparr>\<rparr>
                  in if \<not> checksumMatches
                        \<and> versionInt (metadataVersion m7) \<ge> versionInt Version1_2
                        \<and> \<not> shouldSkipE2eeMetadataChecksumValidation (account m7)
                     then m7
                     else m7\<lparr>migrationNeeded := True, isMetadataSetupFlag := True\<rparr>)))"

text \<open>The loops of \<^verbatim>\<open>setupExistingMetadata\<close> over the users, the checksums and the folders.\<close>

fun setupFolderUsers ::
    "Env \<Rightarrow> json list \<Rightarrow> (string \<rightharpoonup> FolderUser) \<Rightarrow> (string \<rightharpoonup> FolderUser)" where
  "setupFolderUsers env [] users = users"
| "setupFolderUsers env (it # rest) users =
     (let folderUserObject = toObject it;
          user = toString (obj_value folderUserObject ''userId'');
          folderUser =
            \<lparr>userId = user,
             certificatePem = toString (obj_value folderUserObject ''certificate''),
             encryptedMetadataKey =
               fromBase64 env (toString (obj_value folderUserObject ''encryptedMetadataKey'')),
             encryptedFiledropKey =
               fromBase64 env (toString (obj_value folderUserObject ''encryptedFiledropKey''))\<rparr>
      in setupFolderUsers env rest (users(user \<mapsto> folderUser)))"

fun insertKeyChecksums :: "Env \<Rightarrow> json list \<Rightarrow> bytes set \<Rightarrow> bytes set" where
  "insertKeyChecksums env [] checksums = checksums"
| "insertKeyChecksums env (it # rest) checksums =
     (let keyChecksum = variantToString (numberToString env) it
      in insertKeyChecksums env rest (if keyChecksum \<noteq> [] then insert keyChecksum checksums else checksums))"

fun appendParsedFolders :: "(string \<times> json) list \<Rightarrow> EncryptedFile list \<Rightarrow> EncryptedFile list" where
  "appendParsedFolders [] fs = fs"
| "appendParsedFolders ((key, v) # members) fs =
     (let folderName = toString v
      in appendParsedFolders members
           (if folderName \<noteq> []
            then fs @ [emptyEncryptedFile\<lparr>encryptedFilename := key, originalFilename := folderName\<rparr>]
            else fs))"

text \<open>
  \<^verbatim>\<open>FolderMetadata::setupExistingMetadata\<close>. Every early return of the source returns the
  object as it is at that point.
\<close>

definition setupExistingMetadata :: "Env \<Rightarrow> FolderMetadata \<Rightarrow> bytes \<Rightarrow> FolderMetadata" where
  "setupExistingMetadata env m0 metadata =
     (let doc = fromJson env metadata;
          m1 = setupVersionFromExistingMetadata env m0 metadata
      in if versionInt (metadataVersion m1) < versionInt Version1 then m1
         else if versionInt (metadataVersion m1) < versionInt Version2_0
         then setupExistingLegacyMetadataForMigration env m1 metadata
         else
           (let metaDataStr = metadataStringFromOCsDocument doc;
                metaDataDoc = fromJson env metaDataStr;
                fileDropObject = toObject (obj_value (toObject metaDataDoc) ''filedrop'');
                m2 = m1\<lparr>fileDropCipherTextEncryptedAndBase64 :=
                          toString (obj_value fileDropObject ''ciphertext''),
                        fileDropMetadataAuthenticationTag :=
                          fromBase64 env (toString (obj_value fileDropObject ''authenticationTag'')),
                        fileDropMetadataNonce :=
                          fromBase64 env (toString (obj_value fileDropObject ''nonce''))\<rparr>;
                usersArray = toArray (obj_value (toObject metaDataDoc) ''users'');
                isUsersArrayValid =
                  ((\<not> isTopLevelFolder m2 \<and> usersArray = [])
                    \<or> (isTopLevelFolder m2 \<and> usersArray \<noteq> []))
            in if \<not> isUsersArrayValid then m2
               else
                 (let m3 = m2\<lparr>folderUsers := setupFolderUsers env usersArray (folderUsers m2)\<rparr>;
                      m4 = (case folderUsers m3 (davUser (account m3)) of
                              None \<Rightarrow> m3
                            | Some currentFolderUser \<Rightarrow>
                                m3\<lparr>metadataKeyForEncryption :=
                                      decryptData env m3 (encryptedMetadataKey currentFolderUser),
                                    metadataKeyForDecryption :=
                                      decryptData env m3 (encryptedMetadataKey currentFolderUser),
                                    fileDropKey :=
                                      decryptData env m3 (encryptedFiledropKey currentFolderUser)\<rparr>)
                  in if metadataKeyForDecryption m4 = [] \<or> metadataKeyForEncryption m4 = [] then m4
                     else
                       (let metadataObj = toObject (obj_value (toObject metaDataDoc) ''metadata'');
                            m5 = m4\<lparr>metadataNonce :=
                                      fromBase64 env (toString (obj_value metadataObj ''nonce''))\<rparr>;
                            cipherTextEncrypted = toString (obj_value metadataObj ''ciphertext'');
                            cipherTextDecrypted =
                              base64DecodeDecryptAndGzipUnZip env (metadataKeyForDecryption m5)
                                cipherTextEncrypted (metadataNonce m5)
                        in if cipherTextDecrypted = [] then m5
                           else
                             (let cipherTextDocument = fromJson env cipherTextDecrypted;
                                  keyCheckSums =
                                    toArray (obj_value (toObject cipherTextDocument) ''keyChecksums'');
                                  m6 = (if keyCheckSums \<noteq> [] then m5\<lparr>keyChecksums := {}\<rparr> else m5);
                                  m7 = m6\<lparr>keyChecksums :=
                                            insertKeyChecksums env keyCheckSums (keyChecksums m6)\<rparr>
                              in if \<not> verifyMetadataKey env m7 (metadataKeyForDecryption m7) then m7
                                 else
                                   (let filesObj =
                                          toObject (obj_value (toObject cipherTextDocument) ''files'');
                                        foldersObj =
                                          toObject (obj_value (toObject cipherTextDocument) ''folders'');
                                        m8 = m7\<lparr>files := appendParsedFiles env filesObj (files m7)\<rparr>
                                    in m8\<lparr>files := appendParsedFolders foldersObj (files m8)\<rparr>))))))"

text \<open>
  \<^verbatim>\<open>isMetadataSetup()\<close>. The member \<^verbatim>\<open>_metadataKeys\<close> that it also reads is written nowhere
  in the sources, so it is empty.
\<close>

definition isMetadataSetup :: "FolderMetadata \<Rightarrow> bool" where
  "isMetadataSetup m = (metadataKeyForDecryption m \<noteq> [])"

subsection \<open>Constructing the object and the server's envelope\<close>

text \<open>
  The object as the constructor of \<^verbatim>\<open>FolderMetadata\<close> leaves it before \<^verbatim>\<open>setupMetadata\<close> runs:
  the account, the required version and the values of the
  \<^verbatim>\<open>TopLevelFolderInitializationData\<close> are stored, everything else is empty. The initial
  value of \<^verbatim>\<open>_versionFromMetadata\<close> is given in the header, which is not part of the
  sources; it is the argument \<open>initialVersion\<close>.
\<close>

definition constructFolderMetadata ::
    "Account \<Rightarrow> RequiredMetadataVersion \<Rightarrow> string \<Rightarrow> bytes \<Rightarrow> bytes \<Rightarrow> bytes set \<Rightarrow> int
       \<Rightarrow> FolderMetadata" where
  "constructFolderMetadata acc required path keyForEncryption keyForDecryption checksums
       initialVersion =
     \<lparr>account = acc, requiredMetadataVersion = required, topLevelFolderPath = path,
      metadataKeyForEncryption = keyForEncryption, metadataKeyForDecryption = keyForDecryption,
      keyChecksums = checksums, versionFromMetadata = initialVersion, files = [],
      folderUsers = Map.empty, metadataNonce = [], fileDropCipherTextEncryptedAndBase64 = [],
      fileDropMetadataAuthenticationTag = [], fileDropMetadataNonce = [], fileDropKey = [],
      fileDrop = [], fileDropFromServer = [], migrationNeeded = False,
      isMetadataSetupFlag = False\<rparr>"

text \<open>
  Modelled from the spec: the server, which is not part of the sources, stores the
  uploaded document and returns it inside an OCS envelope. The spec describes the format
  as JSON wrapped in an outer envelope whose string field \<^verbatim>\<open>ocs.data.meta-data\<close> contains
  the nested JSON document.
\<close>

definition ocsEnvelope :: "Env \<Rightarrow> bytes \<Rightarrow> bytes" where
  "ocsEnvelope env metaData =
     toJsonCompact env
       (JObj [(''ocs'', JObj [(''data'', JObj [(''meta-data'', JStr metaData)])])])"

text \<open>
  The round trip of a top-level folder: the document of \<^verbatim>\<open>encryptedMetadata\<close>, in the
  server's envelope, parsed by \<^verbatim>\<open>setupExistingMetadata\<close> into a newly constructed object of
  the same account.
\<close>

definition reparsedMetadata :: "Env \<Rightarrow> bytes \<Rightarrow> bytes \<Rightarrow> int \<Rightarrow> FolderMetadata \<Rightarrow> FolderMetadata" where
  "reparsedMetadata env random iv initialVersion m =
     setupExistingMetadata env
       (constructFolderMetadata (account m) Version2_0 ''/'' [] [] {} initialVersion)
       (ocsEnvelope env (fst (encryptedMetadata env random iv m)))"

text \<open>
  What the round trip makes of a file entry: a directory entry keeps its two names and
  nothing else, any other entry is unchanged.
\<close>

definition roundTripFile :: "EncryptedFile \<Rightarrow> EncryptedFile" where
  "roundTripFile f =
     (if isDirectoryEntry f
      then emptyEncryptedFile\<lparr>encryptedFilename := encryptedFilename f,
             originalFilename := originalFilename f\<rparr>
      else f)"

text \<open>
  The laws of the helpers on which the round trip rests: parsing the JSON text of a value
  gives the value, and the compact text is not empty; Base64, gzip and AES-GCM decode what
  they have encoded; and a hashed container is iterated through all its elements.
\<close>

definition helperLaws :: "Env \<Rightarrow> bool" where
  "helperLaws env =
     ((\<forall>j. fromJson env (toJsonCompact env j) = j)
      \<and> (\<forall>j. fromJson env (toJsonIndented env j) = j)
      \<and> (\<forall>j. toJsonCompact env j \<noteq> [])
      \<and> (\<forall>b. fromBase64 env (toBase64 env b) = b)
      \<and> (\<forall>d. \<exists>z. gzipCompress env d = Some z \<and> gzipUncompress env z = Some d)
      \<and> (\<forall>key iv d. dataDecryption env key iv (fst (dataEncryption env key iv d)) = Some d)
      \<and> (\<forall>S. finite S \<longrightarrow> set (hashOrder env S) = S))"

text \<open>
  A top-level object that is fit for an upload: it requires version 2.0; its key has at
  least 16 bytes and the checksum of the first 16 is among its checksums; the checksums
  are finitely many non-empty texts; the users are finitely many, each stored under its
  own user id; and the user of the account is one of them, with a wrapped key that the
  private key of the account unwraps to the metadata key.
\<close>

definition validTopLevel :: "Env \<Rightarrow> FolderMetadata \<Rightarrow> bool" where
  "validTopLevel env m =
     (isTopLevelFolder m
      \<and> requiredMetadataVersion m = Version2_0
      \<and> metadataKeySize \<le> length (metadataKeyForEncryption m)
      \<and> calcSha256 env (take metadataKeySize (metadataKeyForEncryption m)) \<in> keyChecksums m
      \<and> finite (keyChecksums m)
      \<and> [] \<notin> keyChecksums m
      \<and> finite (dom (folderUsers m))
      \<and> (\<forall>u fu. folderUsers m u = Some fu \<longrightarrow> userId fu = u)
      \<and> (\<exists>fu. folderUsers m (davUser (account m)) = Some fu
             \<and> decryptStringAsymmetric env (e2ePrivateKey (account m)) (encryptedMetadataKey fu)
                 = metadataKeyForEncryption m))"

section \<open>UpdateE2eeFolderUsersMetadataJob\<close>

text \<open>
  The job is a chain of slots. Each slot is modelled as a function from the state of the
  job, and the arguments of the signal, to the new state and the list of effects it has
  on its surroundings, in order: the signals it emits, the calls to the metadata handler
  (\<^verbatim>\<open>EncryptedFolderMetadataHandler\<close>, which is not part of the sources) and the sub-jobs it
  starts. What the handler and the sub-jobs answer comes back as the arguments of the next
  slot.
\<close>

datatype Operation = Invalid | Add | Remove | ReEncrypt

datatype Effect =
    Finished int string
  | UnlockFolder bool
  | UploadMetadata
  | StartSubJob nat
  | SetItemEncryptionStatus string

text \<open>The fields of a \<^verbatim>\<open>SyncJournalFileRecord\<close> that the sources read.\<close>

record JournalRecord =
  recordPath :: string
  isDirectory :: bool
  e2eMangledName :: string
  checksumHeader :: string

text \<open>What \<^verbatim>\<open>scheduleSubJobs\<close> hands to a sub-job, which is a \<^verbatim>\<open>ReEncrypt\<close> job.\<close>

record SubJob =
  subJobPath :: string
  subJobKeyForEncryption :: bytes
  subJobKeyForDecryption :: bytes
  subJobKeyChecksums :: "bytes set"
  subJobFolderToken :: bytes

text \<open>
  The handler as the job sees it: the metadata it holds, if any, whether that metadata is
  valid (\<^verbatim>\<open>isValid()\<close> is not part of the sources), the folder token and the removed
  checksums.
\<close>

record MetadataHandler =
  handlerMetadata :: "FolderMetadata option"
  handlerMetadataValid :: bool
  handlerFolderToken :: bytes
  handlerKeyChecksumsRemoved :: "bytes set"

text \<open>
  The sub-jobs are objects; \<open>subJobs\<close> is the set of their addresses (\<^verbatim>\<open>QSet\<close> of pointers)
  and \<open>subJobObjects\<close> the objects. The address of a new object is the number of objects
  created before it, \<open>subJobsCreated\<close>. \<open>subJobSyncItems\<close> holds the paths that have an
  item. \<open>folderUnlockedConnections\<close> counts the connections of the handler's signal
  \<^verbatim>\<open>folderUnlocked\<close> to \<^verbatim>\<open>slotFolderUnlocked\<close>: \<^verbatim>\<open>unlockFolder\<close> makes one more each time it is
  called, and Qt calls the slot once for each.
\<close>

record UsersMetadataJob =
  operation :: Operation
  jobPath :: string
  syncFolderRemotePath :: string
  folderUserId :: string
  handler :: MetadataHandler
  subJobs :: "nat set"
  subJobObjects :: "nat \<rightharpoonup> SubJob"
  subJobsCreated :: nat
  subJobSyncItems :: "string set"
  folderUnlockedConnections :: nat

definition errorUpdatingMetadata :: "UsersMetadataJob \<Rightarrow> string" where
  "errorUpdatingMetadata job = ''Error updating metadata for a folder '' @ jobPath job"

definition unlockFolder :: "bool \<Rightarrow> UsersMetadataJob \<Rightarrow> UsersMetadataJob \<times> Effect list" where
  "unlockFolder success job =
     (job\<lparr>folderUnlockedConnections := Suc (folderUnlockedConnections job)\<rparr>,
      [UnlockFolder success])"

definition slotFolderUnlocked :: "int \<Rightarrow> Effect list" where
  "slotFolderUnlocked httpStatus =
     (let message = (if httpStatus \<noteq> 200 then ''Failed to unlock a folder.'' else [])
      in [Finished httpStatus message])"

definition subJobsFinished :: "bool \<Rightarrow> UsersMetadataJob \<Rightarrow> UsersMetadataJob \<times> Effect list" where
  "subJobsFinished success job = unlockFolder success job"

text \<open>
  The callback of \<^verbatim>\<open>scheduleSubJobs\<close> for one record below the path: a directory gets a
  new sub-job.
\<close>

definition newSubJob :: "UsersMetadataJob \<Rightarrow> FolderMetadata \<Rightarrow> JournalRecord \<Rightarrow> SubJob" where
  "newSubJob job folderMetadata record =
     \<lparr>subJobPath = e2eMangledName record,
      subJobKeyForEncryption = metadataKeyForEncryption folderMetadata,
      subJobKeyForDecryption = metadataKeyForDecryption folderMetadata,
      subJobKeyChecksums = keyChecksums folderMetadata \<union> handlerKeyChecksumsRemoved (handler job),
      subJobFolderToken = handlerFolderToken (handler job)\<rparr>"

fun addSubJobs :: "FolderMetadata \<Rightarrow> JournalRecord list \<Rightarrow> UsersMetadataJob \<Rightarrow> UsersMetadataJob" where
  "addSubJobs folderMetadata [] job = job"
| "addSubJobs folderMetadata (record # records) job =
     (if isDirectory record
      then addSubJobs folderMetadata records
             (job\<lparr>subJobs := insert (subJobsCreated job) (subJobs job),
                  subJobObjects :=
                    (subJobObjects job)(subJobsCreated job \<mapsto> newSubJob job folderMetadata record),
                  subJobsCreated := Suc (subJobsCreated job)\<rparr>)
      else addSubJobs folderMetadata records job)"

text \<open>
  \<^verbatim>\<open>scheduleSubJobs\<close>. \<open>filesBelowPath\<close> is the journal's \<^verbatim>\<open>getFilesBelowPath\<close>: the records
  below a path.
\<close>

definition scheduleSubJobs ::
    "(string \<Rightarrow> JournalRecord list) \<Rightarrow> UsersMetadataJob \<Rightarrow> UsersMetadataJob \<times> Effect list" where
  "scheduleSubJobs filesBelowPath job =
     (case (if handlerMetadataValid (handler job) then handlerMetadata (handler job) else None) of
        None \<Rightarrow>
          (if operation job = Add \<or> operation job = Remove then unlockFolder False job
           else (job, [Finished (- 1) (errorUpdatingMetadata job)]))
      | Some folderMetadata \<Rightarrow>
          (let pathInDb = drop (length (syncFolderRemotePath job)) (jobPath job)
           in (addSubJobs folderMetadata (filesBelowPath pathInDb) job, [])))"

text \<open>
  \<^verbatim>\<open>_subJobs.values().last()->start()\<close>: \<open>order\<close> is the order in which the set of
  addresses is listed.
\<close>

definition startLastSubJob :: "(nat set \<Rightarrow> nat list) \<Rightarrow> UsersMetadataJob \<Rightarrow> Effect list" where
  "startLastSubJob order job = [StartSubJob (last (order (subJobs job)))]"

definition slotUpdateMetadataFinished ::
    "(nat set \<Rightarrow> nat list) \<Rightarrow> (string \<Rightarrow> JournalRecord list) \<Rightarrow> UsersMetadataJob \<Rightarrow> int
       \<Rightarrow> string \<Rightarrow> UsersMetadataJob \<times> Effect list" where
  "slotUpdateMetadataFinished order filesBelowPath job code message =
     (if code \<noteq> 200
      then (if operation job = Add \<or> operation job = Remove then unlockFolder False job
            else (job, [Finished code (errorUpdatingMetadata job @ '':'' @ message)]))
      else if operation job = Add \<or> operation job = Remove
      then (let (job1, effects) = scheduleSubJobs filesBelowPath job
            in if subJobs job1 = {}
               then (let (job2, unlockEffects) = unlockFolder True job1
                     in (job2, effects @ unlockEffects))
               else (job1, effects @ startLastSubJob order job1))
      else (job, [Finished 200 []]))"

text \<open>
  \<^verbatim>\<open>slotSubJobFinished\<close>. \<open>sender\<close> is the address of the sub-job that emitted the signal,
  \<open>None\<close> when the slot is not invoked by a signal of a job.
\<close>

definition slotSubJobFinished ::
    "(nat set \<Rightarrow> nat list) \<Rightarrow> UsersMetadataJob \<Rightarrow> nat option \<Rightarrow> int \<Rightarrow> string
       \<Rightarrow> UsersMetadataJob \<times> Effect list" where
  "slotSubJobFinished order job sender code message =
     (if code \<noteq> 200 then subJobsFinished False job
      else
        (case sender of
           None \<Rightarrow>
             (let (job1, unlockEffects) = subJobsFinished False job
              in (job1, [Finished (- 1) (errorUpdatingMetadata job @ '':'' @ message)]
                        @ unlockEffects))
         | Some address \<Rightarrow>
             (let path = (case subJobObjects job address of
                            Some subJob \<Rightarrow> subJobPath subJob | None \<Rightarrow> []);
                  found = (path \<in> subJobSyncItems job);
                  job1 = (if found then job\<lparr>subJobSyncItems := subJobSyncItems job - {path}\<rparr>
                          else job);
                  itemEffects = (if found then [SetItemEncryptionStatus path] else []);
                  job2 = job1\<lparr>subJobs := subJobs job1 - {address}\<rparr>
              in if subJobs job2 = {}
                 then (let (job3, unlockEffects) = subJobsFinished True job2
                       in (job3, itemEffects @ unlockEffects))
                 else (job2, itemEffects @ startLastSubJob order job2))))"

text \<open>
  What reaches the job after it has asked for the upload: the handler's signals
  \<^verbatim>\<open>uploadFinished\<close> and \<^verbatim>\<open>folderUnlocked\<close>, and the signal \<^verbatim>\<open>finished\<close> of a sub-job. \<open>deliver\<close>
  calls the slots that are connected to the signal, and \<open>runJob\<close> delivers a sequence of
  signals and collects the effects.
\<close>

datatype Signal =
    UploadFinished int string
  | FolderUnlocked int
  | SubJobFinished "nat option" int string

definition deliver ::
    "(nat set \<Rightarrow> nat list) \<Rightarrow> (string \<Rightarrow> JournalRecord list) \<Rightarrow> UsersMetadataJob \<Rightarrow> Signal
       \<Rightarrow> UsersMetadataJob \<times> Effect list" where
  "deliver order filesBelowPath job signal =
     (case signal of
        UploadFinished code message \<Rightarrow>
          slotUpdateMetadataFinished order filesBelowPath job code message
      | FolderUnlocked httpStatus \<Rightarrow>
          (job, concat (replicate (folderUnlockedConnections job) (slotFolderUnlocked httpStatus)))
      | SubJobFinished sender code message \<Rightarrow>
          slotSubJobFinished order job sender code message)"

fun runJob ::
    "(nat set \<Rightarrow> nat list) \<Rightarrow> (string \<Rightarrow> JournalRecord list) \<Rightarrow> UsersMetadataJob \<Rightarrow> Signal list
       \<Rightarrow> UsersMetadataJob \<times> Effect list" where
  "runJob order filesBelowPath job [] = (job, [])"
| "runJob order filesBelowPath job (signal # signals) =
     (let (job1, effects) = deliver order filesBelowPath job signal;
          (job2, later) = runJob order filesBelowPath job1 signals
      in (job2, effects @ later))"

section \<open>The journal and the local propagation jobs\<close>

subsection \<open>The journal\<close>

text \<open>
  Modelled from the spec: the journal (\<^verbatim>\<open>SyncJournalDb\<close>) is not part of the sources. The
  spec describes it as a persistent key-value store of sync records with exactly one
  record per synced path, and lists its operations \<^verbatim>\<open>getFileRecord(path)\<close>,
  \<^verbatim>\<open>deleteFileRecord(path, isDir)\<close> and \<^verbatim>\<open>getFilesBelowPath(prefix, visitor)\<close>, which visits
  the records strictly below a path. Here the journal is the list of its records;
  \<open>deleteFileRecord\<close> removes the record of the path and, when \<open>recursively\<close> is set, the
  records of the paths below it. That an operation fails on the database is decided by
  the surroundings (\<open>journalReadFails\<close>, \<open>journalDeleteFails\<close> and \<open>journalQueryFails\<close>
  below); an operation that fails leaves the journal as it is.
\<close>

type_synonym Journal = "JournalRecord list"

definition startsWith :: "string \<Rightarrow> string \<Rightarrow> bool" where
  "startsWith s prefix = (take (length prefix) s = prefix)"

definition isBelowPath :: "string \<Rightarrow> string \<Rightarrow> bool" where
  "isBelowPath base path =
     (base = [] \<or> (startsWith path (base @ ''/'') \<and> length (base @ ''/'') < length path))"

definition getFileRecord :: "Journal \<Rightarrow> string \<Rightarrow> JournalRecord option" where
  "getFileRecord journal path = find (\<lambda>r. recordPath r = path) journal"

definition deleteFileRecord :: "string \<Rightarrow> bool \<Rightarrow> Journal \<Rightarrow> Journal" where
  "deleteFileRecord path recursively journal =
     filter (\<lambda>r. recordPath r \<noteq> path \<and> \<not> (recursively \<and> isBelowPath path (recordPath r)))
       journal"

definition getFilesBelowPath :: "Journal \<Rightarrow> string \<Rightarrow> JournalRecord list" where
  "getFilesBelowPath journal path = filter (\<lambda>r. isBelowPath path (recordPath r)) journal"

definition setFileRecord :: "JournalRecord \<Rightarrow> Journal \<Rightarrow> Journal" where
  "setFileRecord record journal =
     record # filter (\<lambda>r. recordPath r \<noteq> recordPath record) journal"

definition journalPaths :: "Journal \<Rightarrow> string set" where
  "journalPaths journal = recordPath ` set journal"

subsection \<open>Items, results and the propagator\<close>

datatype Status = Success | NormalError | SoftError | FatalError | Conflict

datatype ConvertToPlaceholderResult = Error | Ok | Locked

datatype PinState = Inherited | AlwaysLocal | OnlineOnly | Unspecified

text \<open>The fields of a \<^verbatim>\<open>SyncFileItem\<close> that the two jobs read.\<close>

record SyncFileItem =
  itemFile :: string
  itemRenameTarget :: string
  itemOriginalFile :: string
  itemIsDirectory :: bool
  itemChecksumHeader :: string

text \<open>
  \<^verbatim>\<open>SyncFileItem::fromSyncJournalFileRecord\<close> for the record that \<^verbatim>\<open>getFileRecord\<close> has filled
  in, which is an empty record when the journal has none for the path.
\<close>

definition fromSyncJournalFileRecord :: "JournalRecord option \<Rightarrow> SyncFileItem" where
  "fromSyncJournalFileRecord record =
     (case record of
        None \<Rightarrow>
          \<lparr>itemFile = [], itemRenameTarget = [], itemOriginalFile = [],
           itemIsDirectory = False, itemChecksumHeader = []\<rparr>
      | Some r \<Rightarrow>
          \<lparr>itemFile = recordPath r, itemRenameTarget = [], itemOriginalFile = recordPath r,
           itemIsDirectory = isDirectory r, itemChecksumHeader = checksumHeader r\<rparr>)"

text \<open>\<^verbatim>\<open>SyncFileItem::destination()\<close>: the rename target if there is one, else the file.\<close>

definition destination :: "SyncFileItem \<Rightarrow> string" where
  "destination item = (if itemRenameTarget item \<noteq> [] then itemRenameTarget item else itemFile item)"

text \<open>
  What the jobs change: the journal, the propagator's map of renamed directories and the
  pin states that the virtual file system keeps.
\<close>

record Propagator =
  journal :: Journal
  renamedDirectories :: "string \<rightharpoonup> string"
  pinStates :: "string \<rightharpoonup> PinState"

text \<open>
  What the jobs ask of their surroundings, none of which is part of the sources: the
  propagator's configuration and path helpers, the local file system, the virtual file
  system, and \<^verbatim>\<open>updateMetadata\<close>, which takes an item and the journal and returns an error
  text or the result of the placeholder conversion, together with the journal as it
  leaves it. \<open>removeRecursivelyResult\<close> is the outcome of
  \<^verbatim>\<open>FileSystem::removeRecursively\<close> for an absolute path: whether everything was removed, the
  calls of its \<^verbatim>\<open>onDeleted\<close> callback in order (path, is a directory), and its errors.
\<close>

record Surroundings =
  localPath :: string
  abortRequested :: bool
  moveFilesToTrash :: bool
  localFileNameClash :: "string \<Rightarrow> bool"
  adjustRenamedPath :: "string \<Rightarrow> string"
  sameIgnoringCase :: "string \<Rightarrow> string \<Rightarrow> bool"
  pathExists :: "string \<Rightarrow> bool"
  dirExists :: "string \<Rightarrow> bool"
  fileExists :: "string \<Rightarrow> bool"
  moveToTrash :: "string \<Rightarrow> string option"
  removeFile :: "string \<Rightarrow> string option"
  renameFile :: "string \<Rightarrow> string \<Rightarrow> string option"
  removeRecursivelyResult :: "string \<Rightarrow> bool \<times> (string \<times> bool) list \<times> string list"
  journalReadFails :: "string \<Rightarrow> bool"
  journalDeleteFails :: "string \<Rightarrow> bool"
  journalQueryFails :: "string \<Rightarrow> bool"
  setPinStateFails :: "string \<Rightarrow> PinState \<Rightarrow> bool"
  adjustSelectiveSyncFails :: "string \<Rightarrow> string \<Rightarrow> bool"
  updateMetadata :: "SyncFileItem \<Rightarrow> Journal \<Rightarrow> (string + ConvertToPlaceholderResult) \<times> Journal"

definition fullLocalPath :: "Surroundings \<Rightarrow> string \<Rightarrow> string" where
  "fullLocalPath env path = localPath env @ path"

text \<open>The journal's \<^verbatim>\<open>deleteFileRecord\<close> as a call: its result and the journal after it.\<close>

definition journalDelete :: "Surroundings \<Rightarrow> string \<Rightarrow> bool \<Rightarrow> Journal \<Rightarrow> bool \<times> Journal" where
  "journalDelete env path recursively j =
     (if journalDeleteFails env path then (False, j)
      else (True, deleteFileRecord path recursively j))"

subsection \<open>PropagateLocalRemove\<close>

text \<open>
  The loop of \<^verbatim>\<open>removeRecursively\<close> over the deleted entries, latest first: an entry outside
  the local path is skipped, an entry whose path starts with the last deleted directory
  is skipped, and the record of every other entry is deleted, with the records below it
  when it is a directory.
\<close>

fun deleteRecordsOfDeleted ::
    "Surroundings \<Rightarrow> string \<Rightarrow> (string \<times> bool) list \<Rightarrow> Journal \<Rightarrow> Journal" where
  "deleteRecordsOfDeleted env deletedDir [] j = j"
| "deleteRecordsOfDeleted env deletedDir ((path, isDir) # rest) j =
     (if \<not> startsWith path (localPath env) then deleteRecordsOfDeleted env deletedDir rest j
      else if deletedDir \<noteq> [] \<and> startsWith path deletedDir
      then deleteRecordsOfDeleted env deletedDir rest j
      else deleteRecordsOfDeleted env (if isDir then path else deletedDir) rest
             (snd (journalDelete env (drop (length (localPath env)) path) isDir j)))"

fun joinWith :: "string \<Rightarrow> string list \<Rightarrow> string" where
  "joinWith separator [] = []"
| "joinWith separator [s] = s"
| "joinWith separator (s # t # rest) = s @ separator @ joinWith separator (t # rest)"

text \<open>
  \<^verbatim>\<open>PropagateLocalRemove::removeRecursively\<close> returns whether everything was removed, the
  journal, and the error text it stores in \<^verbatim>\<open>_error\<close>. The callback prepends, so the list
  of the deleted entries is the reverse of the calls.
\<close>

definition removeRecursively ::
    "Surroundings \<Rightarrow> SyncFileItem \<Rightarrow> string \<Rightarrow> Journal \<Rightarrow> bool \<times> Journal \<times> string" where
  "removeRecursively env item path j =
     (let absolute = fullLocalPath env (itemFile item @ path);
          (success, calls, errors) = removeRecursivelyResult env absolute;
          deleted = rev calls
      in if \<not> success
         then (success, deleteRecordsOfDeleted env [] deleted j, joinWith '', '' errors)
         else (success, j, []))"

text \<open>
  \<^verbatim>\<open>PropagateLocalRemove::start\<close> returns the propagator and the calls of \<^verbatim>\<open>done\<close>, each with
  its status and error text; an aborted run calls \<^verbatim>\<open>done\<close> not at all.
\<close>

definition PropagateLocalRemove_start ::
    "Surroundings \<Rightarrow> SyncFileItem \<Rightarrow> Propagator \<Rightarrow> Propagator \<times> (Status \<times> string) list" where
  "PropagateLocalRemove_start env item p =
     (if abortRequested env then (p, [])
      else
        (let filename = fullLocalPath env (itemFile item);
             finish = (p\<lparr>journal :=
                          snd (journalDelete env (itemOriginalFile item) (itemIsDirectory item)
                                 (journal p))\<rparr>,
                       [(Success, [])])
         in if localFileNameClash env (itemFile item)
            then (p, [(NormalError,
                       ''Could not remove '' @ filename @ '' because of a local file name clash'')])
            else if moveFilesToTrash env
            then (if dirExists env filename \<or> fileExists env filename
                  then (case moveToTrash env filename of
                          Some removeError \<Rightarrow> (p, [(NormalError, removeError)])
                        | None \<Rightarrow> finish)
                  else finish)
            else if itemIsDirectory item
            then (if dirExists env filename
                  then (let (success, j, error) = removeRecursively env item [] (journal p)
                        in if \<not> success then (p\<lparr>journal := j\<rparr>, [(NormalError, error)])
                           else (p\<lparr>journal :=
                                     snd (journalDelete env (itemOriginalFile item)
                                            (itemIsDirectory item) j)\<rparr>,
                                 [(Success, [])]))
                  else finish)
            else (if fileExists env filename
                  then (case removeFile env filename of
                          Some removeError \<Rightarrow> (p, [(NormalError, removeError)])
                        | None \<Rightarrow> finish)
                  else finish)))"

subsection \<open>PropagateLocalRename\<close>

text \<open>
  \<^verbatim>\<open>deleteOldDbRecord\<close> returns whether it succeeded, the journal, and its calls of \<^verbatim>\<open>done\<close>.
\<close>

definition deleteOldDbRecord ::
    "Surroundings \<Rightarrow> string \<Rightarrow> Journal \<Rightarrow> bool \<times> Journal \<times> (Status \<times> string) list" where
  "deleteOldDbRecord env fileName j =
     (if journalReadFails env fileName
      then (False, j, [(NormalError, ''could not get file '' @ fileName @ '' from local DB'')])
      else
        (let (deleted, j1) = journalDelete env fileName False j
         in if \<not> deleted
            then (False, j1,
                  [(NormalError, ''Could not delete file record '' @ fileName @ '' from local DB'')])
            else (True, j1, [])))"

text \<open>
  \<^verbatim>\<open>QString::replace(0, n, after)\<close> on the path of a record: the first \<open>n\<close> characters make
  way for \<open>after\<close>.
\<close>

definition replacePrefix :: "nat \<Rightarrow> string \<Rightarrow> string \<Rightarrow> string" where
  "replacePrefix n after s = after @ drop n s"

text \<open>
  The callback of the directory rename for one record below the old path. A failure calls
  \<^verbatim>\<open>done\<close> and returns from the callback only; the result of \<^verbatim>\<open>updateMetadata\<close> is checked
  for an error and for nothing else.
\<close>

definition renameRecord ::
    "Surroundings \<Rightarrow> string \<Rightarrow> string \<Rightarrow> JournalRecord \<Rightarrow> Journal
       \<Rightarrow> Journal \<times> (Status \<times> string) list" where
  "renameRecord env oldFile renameTarget record j =
     (let oldFileName = recordPath record;
          newFileNameString = replacePrefix (length oldFile) renameTarget oldFileName
      in if oldFileName = newFileNameString then (j, [])
         else if journalReadFails env oldFileName
         then (j, [(NormalError, ''could not get file '' @ oldFileName @ '' from local DB'')])
         else
           (let oldRecord = getFileRecord j oldFileName;
                (deleted, j1) = journalDelete env oldFileName False j
            in if \<not> deleted
               then (j1, [(NormalError,
                           ''Could not delete file record '' @ oldFileName @ '' from local DB'')])
               else
                 (let newItem =
                        (fromSyncJournalFileRecord oldRecord)\<lparr>itemFile := newFileNameString\<rparr>;
                      (result, j2) = updateMetadata env newItem j1
                  in (case result of
                        Inl error \<Rightarrow> (j2, [(FatalError, ''Error updating metadata: '' @ error)])
                      | Inr converted \<Rightarrow> (j2, [])))))"

text \<open>
  The walk of \<^verbatim>\<open>getFilesBelowPath\<close>: the callback is called for each record below the old
  path in turn, whatever the calls before it did.
\<close>

fun renameRecordsBelow ::
    "Surroundings \<Rightarrow> string \<Rightarrow> string \<Rightarrow> JournalRecord list \<Rightarrow> Journal
       \<Rightarrow> Journal \<times> (Status \<times> string) list" where
  "renameRecordsBelow env oldFile renameTarget [] j = (j, [])"
| "renameRecordsBelow env oldFile renameTarget (record # records) j =
     (let step = renameRecord env oldFile renameTarget record j;
          rest = renameRecordsBelow env oldFile renameTarget records (fst step)
      in (fst rest, snd step @ snd rest))"

text \<open>
  The end of \<^verbatim>\<open>PropagateLocalRename::start\<close>, after the records are renamed: the pin state
  of the target, the commit and \<^verbatim>\<open>done(Success)\<close>.
\<close>

definition finishRename ::
    "Surroundings \<Rightarrow> SyncFileItem \<Rightarrow> PinState option \<Rightarrow> Propagator
       \<Rightarrow> Propagator \<times> (Status \<times> string) list" where
  "finishRename env item pinState p =
     (case pinState of
        None \<Rightarrow> (p, [(Success, [])])
      | Some state \<Rightarrow>
          (if state \<noteq> Inherited
           then (if setPinStateFails env (itemRenameTarget item) state
                 then (p, [(NormalError, ''Error setting pin state'')])
                 else (p\<lparr>pinStates := (pinStates p)(itemRenameTarget item \<mapsto> state)\<rparr>,
                       [(Success, [])]))
           else (p, [(Success, [])])))"

text \<open>
  \<^verbatim>\<open>PropagateLocalRename::start\<close>. When the file has already moved and the record of its
  previous name is deleted, the source goes on to delete the record of the original
  file as well.
\<close>

definition PropagateLocalRename_start ::
    "Surroundings \<Rightarrow> SyncFileItem \<Rightarrow> Propagator \<Rightarrow> Propagator \<times> (Status \<times> string) list" where
  "PropagateLocalRename_start env item p =
     (if abortRequested env then (p, [])
      else
        (let previousNameInDb = adjustRenamedPath env (itemFile item);
             existingFile = fullLocalPath env (adjustRenamedPath env (itemFile item));
             targetFile = fullLocalPath env (itemRenameTarget item);
             fileAlreadyMoved = (\<not> pathExists env (fullLocalPath env (itemOriginalFile item)));
             moving = (itemFile item \<noteq> itemRenameTarget item)
         in if moving \<and> \<not> sameIgnoringCase env (itemFile item) (itemRenameTarget item)
               \<and> localFileNameClash env (itemRenameTarget item)
            then (p, [(NormalError,
                       ''File '' @ itemFile item @ '' cannot be renamed to '' @ itemRenameTarget item
                       @ '' because of a local file name clash'')])
            else
              (case (if moving then renameFile env existingFile targetFile else None) of
                 Some renameError \<Rightarrow> (p, [(NormalError, renameError)])
               | None \<Rightarrow>
                   (let oldName = (if fileAlreadyMoved then previousNameInDb
                                   else itemOriginalFile item)
                    in if journalReadFails env oldName
                       then (p, [(NormalError,
                                  ''could not get file '' @ itemOriginalFile item @ '' from local DB'')])
                       else
                         (let oldRecord = getFileRecord (journal p) oldName;
                              (deleted1, j1, dones1) =
                                (if fileAlreadyMoved
                                 then deleteOldDbRecord env previousNameInDb (journal p)
                                 else (True, journal p, []))
                          in if \<not> deleted1 then (p\<lparr>journal := j1\<rparr>, dones1)
                             else
                               (let (deleted2, j2, dones2) =
                                      deleteOldDbRecord env (itemOriginalFile item) j1
                                in if \<not> deleted2 then (p\<lparr>journal := j2\<rparr>, dones2)
                                   else
                                     (let pinState = pinStates p (itemOriginalFile item);
                                          p1 = p\<lparr>journal := j2,
                                                 pinStates :=
                                                   (if setPinStateFails env (itemOriginalFile item) Inherited
                                                    then pinStates p
                                                    else (pinStates p)
                                                           (itemOriginalFile item \<mapsto> Inherited))\<rparr>;
                                          oldFile = itemFile item
                                      in if \<not> itemIsDirectory item
                                         then
                                           (let newItem =
                                                  (case oldRecord of
                                                     None \<Rightarrow> item
                                                   | Some r \<Rightarrow>
                                                       (if recordPath r \<noteq> []
                                                        then item\<lparr>itemChecksumHeader := checksumHeader r\<rparr>
                                                        else item));
                                                (result, j3) = updateMetadata env newItem (journal p1)
                                            in (case result of
                                                  Inl error \<Rightarrow>
                                                    (p1\<lparr>journal := j3\<rparr>,
                                                     [(FatalError, ''Error updating metadata: '' @ error)])
                                                | Inr converted \<Rightarrow>
                                                    (if converted = Locked
                                                     then (p1\<lparr>journal := j3\<rparr>,
                                                           [(SoftError,
                                                             ''The file '' @ itemFile newItem
                                                             @ '' is currently in use'')])
                                                     else finishRename env item pinState
                                                            (p1\<lparr>journal := j3\<rparr>))))
                                         else if journalQueryFails env oldFile
                                         then (p1, [(FatalError,
                                                ''Failed to propagate directory rename in hierarchy'')])
                                         else
                                           (let (j3, dones3) =
                                                  renameRecordsBelow env oldFile (itemRenameTarget item)
                                                    (getFilesBelowPath (journal p1) oldFile) (journal p1);
                                                p2 = p1\<lparr>journal := j3,
                                                        renamedDirectories :=
                                                          (renamedDirectories p1)
                                                            (oldFile \<mapsto> itemRenameTarget item)\<rparr>
                                            in if adjustSelectiveSyncFails env oldFile (itemRenameTarget item)
                                               then (p2, dones3 @ [(FatalError, ''Failed to rename file'')])
                                               else (let (p3, dones4) = finishRename env item pinState p2
                                                     in (p3, dones3 @ dones4))))))))))"

section \<open>A small environment and sample objects\<close>

text \<open>
  The theorems below hold for every environment. To show that their hypotheses can be
  met, they are instantiated in the following environment: a key pair is a pair of equal
  texts, a ciphertext is the key followed by the plain text, Base64 and gzip put one
  character in front, a certificate is the text \<open>CERT:\<close> followed by its public key, and
  the JSON text of a value is as long as the number that enumerates the value.
\<close>

instance json :: countable
  by countable_datatype

definition toyEnv :: Env where
  "toyEnv =
     \<lparr>calcSha256 = (\<lambda>b. ''sha256:'' @ b),
      sha256Hex = (\<lambda>b. ''hex:'' @ b),
      toBase64 = (\<lambda>b. CHR ''='' # b),
      fromBase64 = (\<lambda>b. drop 1 b),
      encryptStringAsymmetric = (\<lambda>key d. key @ d),
      decryptStringAsymmetric =
        (\<lambda>key c. if take (length key) c = key then drop (length key) c else []),
      encryptStringSymmetric = (\<lambda>key d. key @ d),
      decryptStringSymmetric =
        (\<lambda>key c. if take (length key) c = key then drop (length key) c else []),
      dataEncryption = (\<lambda>key iv d. (key @ iv @ d, ''tag'')),
      dataDecryption =
        (\<lambda>key iv c. if take (length (key @ iv)) c = key @ iv
                    then Some (drop (length (key @ iv)) c) else None),
      gzipCompress = (\<lambda>b. Some (CHR ''z'' # b)),
      gzipUncompress = (\<lambda>b. if take 1 b = ''z'' then Some (drop 1 b) else None),
      fromJson = (\<lambda>b. if b = [] then JNull else from_nat (length b - 1)),
      toJsonCompact = (\<lambda>j. CHR ''j'' # replicate (to_nat j) (CHR ''.'')),
      toJsonIndented = (\<lambda>j. CHR ''j'' # replicate (to_nat j) (CHR ''.'')),
      certificateIsNull = (\<lambda>pem. take 5 pem \<noteq> ''CERT:''),
      certificatePublicKey = (\<lambda>pem. drop 5 pem),
      hashOrder = sorted_list_of_set,
      numberToString = (\<lambda>r. ''0'')\<rparr>"

definition sampleAccount :: Account where
  "sampleAccount =
     \<lparr>davUser = ''alice'', e2ePrivateKey = ''alice-key'', e2eCertificate = ''CERT:alice-key'',
      e2eMnemonic = ''one two'', shouldSkipE2eeMetadataChecksumValidation = False\<rparr>"

text \<open>A top-level object with no key, no user and no file, of the given version.\<close>

definition blankMetadata :: "int \<Rightarrow> FolderMetadata" where
  "blankMetadata v =
     \<lparr>account = sampleAccount, requiredMetadataVersion = Version2_0,
      topLevelFolderPath = ''/'', metadataKeyForEncryption = [],
      metadataKeyForDecryption = [], keyChecksums = {}, versionFromMetadata = v,
      files = [], folderUsers = Map.empty, metadataNonce = [],
      fileDropCipherTextEncryptedAndBase64 = [], fileDropMetadataAuthenticationTag = [],
      fileDropMetadataNonce = [], fileDropKey = [], fileDrop = [], fileDropFromServer = [],
      migrationNeeded = False, isMetadataSetupFlag = False\<rparr>"

definition key1 :: bytes where
  "key1 = ''0123456789abcdef''"

definition key2 :: bytes where
  "key2 = ''fedcba9876543210''"

text \<open>A key of more than 16 bytes that starts with \<open>key1\<close>.\<close>

definition key3 :: bytes where
  "key3 = ''0123456789abcdef-and-more''"

text \<open>A version 2 object that holds a key, a nonce and a file drop section.\<close>

definition fileDropMetadata :: FolderMetadata where
  "fileDropMetadata =
     (blankMetadata 2)\<lparr>metadataKeyForEncryption := key1, metadataKeyForDecryption := key1,
       metadataNonce := ''nonce'', fileDropCipherTextEncryptedAndBase64 := ''ciphertext''\<rparr>"

text \<open>
  A top-level folder shared with two users: the stored certificate of \<open>bob\<close> is not a
  certificate, that of \<open>dave\<close> is one.
\<close>

definition bob :: FolderUser where
  "bob = \<lparr>userId = ''bob'', certificatePem = ''not a certificate'',
           encryptedMetadataKey = ''wrapped-old-key'', encryptedFiledropKey = []\<rparr>"

definition dave :: FolderUser where
  "dave = \<lparr>userId = ''dave'', certificatePem = ''CERT:dave-key'',
           encryptedMetadataKey = ''dave-key'' @ key1, encryptedFiledropKey = []\<rparr>"

definition sharedMetadata :: FolderMetadata where
  "sharedMetadata =
     (blankMetadata 2)\<lparr>metadataKeyForEncryption := key1, metadataKeyForDecryption := key1,
       keyChecksums := {''sha256:'' @ key1},
       folderUsers := [''bob'' \<mapsto> bob, ''dave'' \<mapsto> dave]\<rparr>"

text \<open>
  A document in the legacy layout whose version field is \<open>v\<close>. Its metadata key is
  \<open>key1\<close>, encoded twice in Base64 and wrapped for the sample account, and it lists one
  file, \<open>a.txt\<close>, under the encrypted name \<open>enc1\<close>. \<open>legacyDocument v\<close> is the text that
  the server sends: the document as a string inside the OCS envelope.
\<close>

definition legacyFileEntry :: json where
  "legacyFileEntry =
     JObj [(''authenticationTag'', JStr ''=tag''),
           (''encrypted'', JStr (encryptStringSymmetric toyEnv key1
              (toJsonCompact toyEnv
                 (JObj [(''filename'', JStr ''a.txt''), (''key'', JStr ''=file-key''),
                        (''mimetype'', JStr ''text/plain'')])))),
           (''initializationVector'', JStr ''=iv'')]"

definition legacyInnerDocument :: "rat \<Rightarrow> json" where
  "legacyInnerDocument v =
     JObj [(''files'', JObj [(''enc1'', legacyFileEntry)]),
           (''metadata'',
              JObj [(''metadataKey'',
                       JStr (toBase64 toyEnv (encryptStringAsymmetric toyEnv ''alice-key''
                              (toBase64 toyEnv (toBase64 toyEnv key1))))),
                    (''version'', JNum v)])]"

definition legacyDocument :: "rat \<Rightarrow> bytes" where
  "legacyDocument v = ocsEnvelope toyEnv (toJsonCompact toyEnv (legacyInnerDocument v))"

text \<open>
  A job that removes \<open>bob\<close> from the shared sample folder \<open>/shared\<close>, whose journal lists
  two directories and a file below it.
\<close>

definition sampleHandler :: MetadataHandler where
  "sampleHandler =
     \<lparr>handlerMetadata = Some sharedMetadata, handlerMetadataValid = True,
      handlerFolderToken = ''token'', handlerKeyChecksumsRemoved = {}\<rparr>"

definition removeBobJob :: UsersMetadataJob where
  "removeBobJob =
     \<lparr>operation = Remove, jobPath = ''/shared'', syncFolderRemotePath = ''/'',
      folderUserId = ''bob'', handler = sampleHandler, subJobs = {}, subJobObjects = Map.empty,
      subJobsCreated = 0, subJobSyncItems = {}, folderUnlockedConnections = 0\<rparr>"

definition sampleFilesBelowPath :: "string \<Rightarrow> JournalRecord list" where
  "sampleFilesBelowPath path =
     (if path = ''shared''
      then [\<lparr>recordPath = ''shared/a'', isDirectory = True, e2eMangledName = ''shared/e1'',
              checksumHeader = []\<rparr>,
            \<lparr>recordPath = ''shared/a/x.txt'', isDirectory = False,
              e2eMangledName = ''shared/e1/e2'', checksumHeader = []\<rparr>,
            \<lparr>recordPath = ''shared/b'', isDirectory = True, e2eMangledName = ''shared/e3'',
              checksumHeader = []\<rparr>]
      else [])"

text \<open>
  The same job after the upload has succeeded: a sub-job for each of the two directories,
  at the addresses 0 and 1.
\<close>

definition scheduledJob :: UsersMetadataJob where
  "scheduledJob =
     removeBobJob\<lparr>subJobs := {0, 1},
       subJobObjects :=
         [0 \<mapsto> newSubJob removeBobJob sharedMetadata
                 \<lparr>recordPath = ''shared/a'', isDirectory = True, e2eMangledName = ''shared/e1'',
                   checksumHeader = []\<rparr>,
          1 \<mapsto> newSubJob removeBobJob sharedMetadata
                 \<lparr>recordPath = ''shared/b'', isDirectory = True, e2eMangledName = ''shared/e3'',
                   checksumHeader = []\<rparr>],
       subJobsCreated := 2\<rparr>"

text \<open>
  Surroundings in which nothing fails but the recursive removal of \<open>/local/A\<close>. That
  directory holds the file \<open>foobar.txt\<close>, the empty directory \<open>foo\<close> and the file
  \<open>locked.txt\<close>; the first two are removed, in that order, and the third cannot be
  removed. \<^verbatim>\<open>updateMetadata\<close> stores a record at the destination of the item.
\<close>

definition recordOfItem :: "SyncFileItem \<Rightarrow> JournalRecord" where
  "recordOfItem item =
     \<lparr>recordPath = destination item, isDirectory = itemIsDirectory item, e2eMangledName = [],
      checksumHeader = itemChecksumHeader item\<rparr>"

definition sampleSurroundings :: Surroundings where
  "sampleSurroundings =
     \<lparr>localPath = ''/local/'', abortRequested = False, moveFilesToTrash = False,
      localFileNameClash = (\<lambda>path. False), adjustRenamedPath = (\<lambda>path. path),
      sameIgnoringCase = (\<lambda>a b. a = b), pathExists = (\<lambda>path. path = ''/local/A''),
      dirExists = (\<lambda>path. path = ''/local/A''), fileExists = (\<lambda>path. False),
      moveToTrash = (\<lambda>path. None), removeFile = (\<lambda>path. None),
      renameFile = (\<lambda>existing target. None),
      removeRecursivelyResult =
        (\<lambda>path. if path = ''/local/A''
                then (False, [(''/local/A/foobar.txt'', False), (''/local/A/foo'', True)],
                      [''Could not remove /local/A/locked.txt''])
                else (True, [], [])),
      journalReadFails = (\<lambda>path. False), journalDeleteFails = (\<lambda>path. False),
      journalQueryFails = (\<lambda>path. False), setPinStateFails = (\<lambda>path state. False),
      adjustSelectiveSyncFails = (\<lambda>from to. False),
      updateMetadata = (\<lambda>item j. (Inr Ok, setFileRecord (recordOfItem item) j))\<rparr>"

definition sampleRecord :: "string \<Rightarrow> bool \<Rightarrow> JournalRecord" where
  "sampleRecord path dir =
     \<lparr>recordPath = path, isDirectory = dir, e2eMangledName = [], checksumHeader = []\<rparr>"

definition directoryA :: SyncFileItem where
  "directoryA =
     \<lparr>itemFile = ''A'', itemRenameTarget = [], itemOriginalFile = ''A'', itemIsDirectory = True,
      itemChecksumHeader = []\<rparr>"

definition propagatorWith :: "Journal \<Rightarrow> Propagator" where
  "propagatorWith j = \<lparr>journal = j, renamedDirectories = Map.empty, pinStates = Map.empty\<rparr>"

text \<open>The journal of the directory \<open>A\<close> before it is removed.\<close>

definition journalA :: Journal where
  "journalA = [sampleRecord ''A'' True, sampleRecord ''A/foo'' True,
               sampleRecord ''A/foobar.txt'' False, sampleRecord ''A/locked.txt'' False]"

text \<open>The rename of the directory \<open>A\<close>, which holds \<open>x.txt\<close>, to \<open>B\<close>.\<close>

definition renameAtoB :: SyncFileItem where
  "renameAtoB =
     \<lparr>itemFile = ''A'', itemRenameTarget = ''B'', itemOriginalFile = ''A'', itemIsDirectory = True,
      itemChecksumHeader = []\<rparr>"

definition journalAx :: Journal where
  "journalAx = [sampleRecord ''A'' True, sampleRecord ''A/x.txt'' False]"

text \<open>
  A top-level folder of the sample account alone, with the given files: a file \<open>a.txt\<close>
  and a directory \<open>photos\<close> that carries a mime type, a key, a nonce and a tag, as the
  entries read from a legacy document do.
\<close>

definition alice :: FolderUser where
  "alice = \<lparr>userId = ''alice'', certificatePem = ''CERT:alice-key'',
             encryptedMetadataKey = ''alice-key'' @ key1, encryptedFiledropKey = []\<rparr>"

definition sampleFile :: EncryptedFile where
  "sampleFile =
     \<lparr>encryptionKey = ''file-key'', mimetype = ''text/plain'', initializationVector = ''iv'',
      authenticationTag = ''tag'', encryptedFilename = ''enc1'', originalFilename = ''a.txt''\<rparr>"

definition sampleDirectory :: EncryptedFile where
  "sampleDirectory =
     \<lparr>encryptionKey = ''directory-key'', mimetype = ''httpd/unix-directory'',
      initializationVector = ''iv'', authenticationTag = ''tag'', encryptedFilename = ''enc2'',
      originalFilename = ''photos''\<rparr>"

definition ownedMetadata :: "EncryptedFile list \<Rightarrow> FolderMetadata" where
  "ownedMetadata fs =
     (blankMetadata 2)\<lparr>metadataKeyForEncryption := key1, metadataKeyForDecryption := key1,
       keyChecksums := {''sha256:'' @ key1}, folderUsers := [''alice'' \<mapsto> alice],
       files := fs\<rparr>"

text \<open>
  The surroundings in which every file is in use: \<^verbatim>\<open>updateMetadata\<close> answers \<open>Locked\<close> and
  stores no record. And the rename of the file \<open>x.txt\<close> to \<open>y.txt\<close>.
\<close>

definition lockedSurroundings :: Surroundings where
  "lockedSurroundings = sampleSurroundings\<lparr>updateMetadata := (\<lambda>item j. (Inr Locked, j))\<rparr>"

definition renameXtoY :: SyncFileItem where
  "renameXtoY =
     \<lparr>itemFile = ''x.txt'', itemRenameTarget = ''y.txt'', itemOriginalFile = ''x.txt'',
      itemIsDirectory = False, itemChecksumHeader = []\<rparr>"

section \<open>Properties\<close>

subsection \<open>Facts about the key rotation\<close>

lemma isTopLevelFolder_createNewMetadataKey [simp]:
  "isTopLevelFolder (createNewMetadataKeyForEncryption env random m) = isTopLevelFolder m"
  by (simp add: createNewMetadataKeyForEncryption_def isTopLevelFolder_def Let_def)

lemma createNewMetadataKey_key:
  "isTopLevelFolder m \<Longrightarrow>
     metadataKeyForEncryption (createNewMetadataKeyForEncryption env random m) = random"
  by (simp add: createNewMetadataKeyForEncryption_def Let_def)

lemma createNewMetadataKey_checksums:
  "isTopLevelFolder m \<Longrightarrow> random \<noteq> [] \<Longrightarrow>
     keyChecksums (createNewMetadataKeyForEncryption env random m) =
       insert (calcSha256 env random)
         (keyChecksums m -
            (if metadataKeyForEncryption m = [] then {}
             else {calcSha256 env (metadataKeyForEncryption m)}))"
  by (simp add: createNewMetadataKeyForEncryption_def Let_def)

lemma createNewMetadataKey_users [simp]:
  "folderUsers (createNewMetadataKeyForEncryption env random m) = folderUsers m"
  by (simp add: createNewMetadataKeyForEncryption_def Let_def)

lemma updateUsers_fields:
  "metadataKeyForEncryption (updateUsersEncryptedMetadataKey env m) = metadataKeyForEncryption m"
  "keyChecksums (updateUsersEncryptedMetadataKey env m) = keyChecksums m"
  "isTopLevelFolder (updateUsersEncryptedMetadataKey env m) = isTopLevelFolder m"
  by (simp_all add: updateUsersEncryptedMetadataKey_def isTopLevelFolder_def)

lemma updateUsers_users:
  "isTopLevelFolder m \<Longrightarrow> metadataKeyForEncryption m \<noteq> [] \<Longrightarrow>
     folderUsers (updateUsersEncryptedMetadataKey env m) key =
       map_option (updateFolderUser env (metadataKeyForEncryption m)) (folderUsers m key)"
  by (simp add: updateUsersEncryptedMetadataKey_def)

lemma updateFolderUser_eq:
  "updateFolderUser env key fu =
     (if certificateIsNull env (certificatePem fu) \<or> certificatePublicKey env (certificatePem fu) = []
         \<or> encryptData env key (certificatePublicKey env (certificatePem fu)) = []
      then fu
      else fu\<lparr>encryptedMetadataKey :=
                encryptData env key (certificatePublicKey env (certificatePem fu))\<rparr>)"
  by (simp add: updateFolderUser_def Let_def)

lemma removeUser_result:
  assumes "isTopLevelFolder m" and "user \<noteq> []" and "random \<noteq> []"
    and "removeUser env random m user = (ok, m')"
  shows "ok \<and> isTopLevelFolder m' \<and> metadataKeyForEncryption m' = random
    \<and> keyChecksums m' =
        insert (calcSha256 env random)
          (keyChecksums m -
             (if metadataKeyForEncryption m = [] then {}
              else {calcSha256 env (metadataKeyForEncryption m)}))
    \<and> folderUsers m' user = None
    \<and> (\<forall>u. u \<noteq> user \<longrightarrow>
          folderUsers m' u = map_option (updateFolderUser env random) (folderUsers m u))"
proof -
  let ?m1 = "createNewMetadataKeyForEncryption env random m"
  let ?m2 = "?m1\<lparr>folderUsers := (folderUsers ?m1)(user := None)\<rparr>"
  have top2: "isTopLevelFolder ?m2"
    using assms(1) by (simp add: isTopLevelFolder_def createNewMetadataKeyForEncryption_def Let_def)
  have key2: "metadataKeyForEncryption ?m2 = random"
    using assms(1) by (simp add: createNewMetadataKey_key)
  have res: "ok \<and> m' = updateUsersEncryptedMetadataKey env ?m2"
    using assms by (auto simp add: removeUser_def Let_def)
  have users: "folderUsers m' u = map_option (updateFolderUser env random) (folderUsers ?m2 u)" for u
    using res updateUsers_users [OF top2, of env u] key2 assms(3) by simp
  show ?thesis
    using res top2 key2 users assms(1,3)
    by (simp add: updateUsers_fields createNewMetadataKey_checksums)
qed

lemma addUser_result:
  assumes "isTopLevelFolder m" and "user \<noteq> []" and "random \<noteq> []"
    and "\<not> certificateIsNull env certificate" and "certificatePublicKey env certificate \<noteq> []"
    and "addUser env random m user certificate = (ok, m')"
  shows "ok \<and> isTopLevelFolder m' \<and> metadataKeyForEncryption m' = random
    \<and> keyChecksums m' =
        insert (calcSha256 env random)
          (keyChecksums m -
             (if metadataKeyForEncryption m = [] then {}
              else {calcSha256 env (metadataKeyForEncryption m)}))
    \<and> folderUsers m' user =
        Some \<lparr>userId = user, certificatePem = certificate,
              encryptedMetadataKey = encryptData env random (certificatePublicKey env certificate),
              encryptedFiledropKey = []\<rparr>
    \<and> (\<forall>u. u \<noteq> user \<longrightarrow>
          folderUsers m' u = map_option (updateFolderUser env random) (folderUsers m u))"
proof -
  let ?m1 = "createNewMetadataKeyForEncryption env random m"
  let ?new = "\<lparr>userId = user, certificatePem = certificate,
     encryptedMetadataKey = encryptData env (metadataKeyForEncryption ?m1)
       (certificatePublicKey env certificate), encryptedFiledropKey = []\<rparr>"
  let ?m2 = "?m1\<lparr>folderUsers := (folderUsers ?m1)(user \<mapsto> ?new)\<rparr>"
  have top2: "isTopLevelFolder ?m2"
    using assms(1) by (simp add: isTopLevelFolder_def createNewMetadataKeyForEncryption_def Let_def)
  have key1: "metadataKeyForEncryption ?m1 = random"
    using assms(1) by (simp add: createNewMetadataKey_key)
  have key2: "metadataKeyForEncryption ?m2 = random"
    using key1 by simp
  have res: "ok \<and> m' = updateUsersEncryptedMetadataKey env ?m2"
    using assms by (auto simp add: addUser_def Let_def)
  have users: "folderUsers m' u = map_option (updateFolderUser env random) (folderUsers ?m2 u)" for u
    using res updateUsers_users [OF top2, of env u] key2 assms(3) by simp
  have new: "updateFolderUser env random ?new =
      \<lparr>userId = user, certificatePem = certificate,
       encryptedMetadataKey = encryptData env random (certificatePublicKey env certificate),
       encryptedFiledropKey = []\<rparr>"
    using assms(4,5) key1 by (simp add: updateFolderUser_eq)
  show ?thesis
    using res top2 key2 users new assms(1,3)
    by (simp add: updateUsers_fields createNewMetadataKey_checksums)
qed

subsection \<open>Facts about the small environment\<close>

lemma fromJson_toyEnv [simp]:
  "fromJson toyEnv (toJsonCompact toyEnv j) = j"
  "fromJson toyEnv (toJsonIndented toyEnv j) = j"
  by (simp_all add: toyEnv_def)

lemma toJson_toyEnv_not_empty [simp]:
  "toJsonCompact toyEnv j \<noteq> []"
  "toJsonIndented toyEnv j \<noteq> []"
  by (simp_all add: toyEnv_def)

lemma codecs_toyEnv [simp]:
  "fromBase64 toyEnv b = drop 1 b"
  "toBase64 toyEnv b = CHR ''='' # b"
  "gzipCompress toyEnv b = Some (CHR ''z'' # b)"
  "gzipUncompress toyEnv b = (if take 1 b = ''z'' then Some (drop 1 b) else None)"
  by (simp_all add: toyEnv_def)

lemma ciphers_toyEnv [simp]:
  "encryptStringAsymmetric toyEnv key d = key @ d"
  "decryptStringAsymmetric toyEnv key c =
     (if take (length key) c = key then drop (length key) c else [])"
  "encryptStringSymmetric toyEnv key d = key @ d"
  "decryptStringSymmetric toyEnv key c =
     (if take (length key) c = key then drop (length key) c else [])"
  "dataEncryption toyEnv key iv d = (key @ iv @ d, ''tag'')"
  "dataDecryption toyEnv key iv c =
     (if take (length (key @ iv)) c = key @ iv then Some (drop (length (key @ iv)) c) else None)"
  by (simp_all add: toyEnv_def)

lemma certificates_toyEnv [simp]:
  "certificateIsNull toyEnv pem = (take 5 pem \<noteq> ''CERT:'')"
  "certificatePublicKey toyEnv pem = drop 5 pem"
  "calcSha256 toyEnv b = ''sha256:'' @ b"
  by (simp_all add: toyEnv_def)

subsection \<open>Facts about the version of a document\<close>

lemma metadataVersion_eq:
  "metadataVersion m =
     (if versionFromMetadata m \<le> 1 then Version1
      else if versionFromMetadata m < 2 then Version1_2 else Version2_0)"
proof -
  have "((of_int (versionFromMetadata m) :: rat) < 12 / 10) = (versionFromMetadata m \<le> 1)"
  proof
    assume "(of_int (versionFromMetadata m) :: rat) < 12 / 10"
    then have "(of_int (versionFromMetadata m) :: rat) < of_int 2" by simp
    then have "versionFromMetadata m < 2" by (simp only: of_int_less_iff)
    then show "versionFromMetadata m \<le> 1" by simp
  next
    assume "versionFromMetadata m \<le> 1"
    then have "(of_int (versionFromMetadata m) :: rat) \<le> of_int 1" by (simp only: of_int_le_iff)
    then show "(of_int (versionFromMetadata m) :: rat) < 12 / 10" by simp
  qed
  moreover have "((of_int (versionFromMetadata m) :: rat) < 2) = (versionFromMetadata m < 2)"
    by simp
  ultimately show ?thesis
    by (simp add: metadataVersion_def)
qed

lemma metadataVersion_not_below_Version1:
  "\<not> versionInt (metadataVersion m) < versionInt Version1"
  by (simp add: metadataVersion_eq)

subsection \<open>Facts about the journal and the local rename\<close>

lemma journalPaths_deleteFileRecord:
  "journalPaths (deleteFileRecord path False j) = journalPaths j - {path}"
  by (auto simp add: journalPaths_def deleteFileRecord_def)

lemma renameRecord_no_done:
  assumes "renameRecord env oldFile renameTarget r j = (j', [])"
    and "recordPath r \<noteq> replacePrefix (length oldFile) renameTarget (recordPath r)"
  shows "\<exists>converted.
     updateMetadata env
       ((fromSyncJournalFileRecord (getFileRecord j (recordPath r)))
          \<lparr>itemFile := replacePrefix (length oldFile) renameTarget (recordPath r)\<rparr>)
       (deleteFileRecord (recordPath r) False j) = (Inr converted, j')"
proof -
  let ?item = "(fromSyncJournalFileRecord (getFileRecord j (recordPath r)))
          \<lparr>itemFile := replacePrefix (length oldFile) renameTarget (recordPath r)\<rparr>"
  obtain result j2 where upd:
    "updateMetadata env ?item (deleteFileRecord (recordPath r) False j) = (result, j2)"
    by (cases "updateMetadata env ?item (deleteFileRecord (recordPath r) False j)") auto
  have "(case result of Inl error \<Rightarrow> (j2, [(FatalError, ''Error updating metadata: '' @ error)])
         | Inr converted \<Rightarrow> (j2, [])) = (j', [])"
    using assms upd
    by (simp add: renameRecord_def journalDelete_def Let_def split: if_splits)
  then have "\<exists>converted. result = Inr converted \<and> j2 = j'"
    by (cases result) simp_all
  then show ?thesis
    using upd by auto
qed


lemma finishRename_result:
  "finishRename env item pinState p = (p', dones) \<Longrightarrow>
     journal p' = journal p \<and> renamedDirectories p' = renamedDirectories p
     \<and> (dones = [(Success, [])] \<or> dones = [(NormalError, ''Error setting pin state'')])"
  by (auto simp add: finishRename_def split: option.splits if_splits)

lemma deleteOldDbRecord_cases:
  "deleteOldDbRecord env fileName j = (ok, j', dones) \<Longrightarrow>
     (ok \<and> j' = deleteFileRecord fileName False j \<and> dones = [])
     \<or> (\<not> ok \<and> (\<exists>text. dones = [(NormalError, text)]))"
  by (auto simp add: deleteOldDbRecord_def journalDelete_def Let_def split: if_splits)

lemma rename_directory_success:
  assumes dir: "itemIsDirectory item"
    and run: "PropagateLocalRename_start env item p = (p', [(Success, [])])"
  shows "\<exists>j0. (j0 = journal p
              \<or> j0 = deleteFileRecord (adjustRenamedPath env (itemFile item)) False (journal p))
     \<and> renameRecordsBelow env (itemFile item) (itemRenameTarget item)
          (getFilesBelowPath (deleteFileRecord (itemOriginalFile item) False j0) (itemFile item))
          (deleteFileRecord (itemOriginalFile item) False j0) = (journal p', [])
     \<and> renamedDirectories p' = (renamedDirectories p)(itemFile item \<mapsto> itemRenameTarget item)"
proof -
  let ?moved = "\<not> pathExists env (fullLocalPath env (itemOriginalFile item))"
  let ?prev = "adjustRenamedPath env (itemFile item)"
  obtain ok1 j1 dones1 where d1:
    "(if ?moved then deleteOldDbRecord env ?prev (journal p) else (True, journal p, [])) = (ok1, j1, dones1)"
    by (metis prod_cases3)
  obtain ok2 j2 dones2 where d2: "deleteOldDbRecord env (itemOriginalFile item) j1 = (ok2, j2, dones2)"
    by (metis prod_cases3)
  let ?p1 = "p\<lparr>journal := j2,
       pinStates := (if setPinStateFails env (itemOriginalFile item) Inherited then pinStates p
                     else (pinStates p)(itemOriginalFile item \<mapsto> Inherited))\<rparr>"
  obtain j3 dones3 where walk:
    "renameRecordsBelow env (itemFile item) (itemRenameTarget item)
       (getFilesBelowPath j2 (itemFile item)) j2 = (j3, dones3)"
    by (metis surj_pair)
  let ?p2 = "?p1\<lparr>journal := j3,
       renamedDirectories := (renamedDirectories ?p1)(itemFile item \<mapsto> itemRenameTarget item)\<rparr>"
  obtain p3 dones4 where fin: "finishRename env item (pinStates p (itemOriginalFile item)) ?p2 = (p3, dones4)"
    by (metis surj_pair)
  have c1: "(ok1 \<and> (j1 = journal p \<or> j1 = deleteFileRecord ?prev False (journal p)) \<and> dones1 = [])
      \<or> (\<not> ok1 \<and> (\<exists>text. dones1 = [(NormalError, text)]))"
    using d1 deleteOldDbRecord_cases [of env ?prev "journal p" ok1 j1 dones1]
    by (cases ?moved) auto
  note c2 = deleteOldDbRecord_cases [OF d2]
  note c4 = finishRename_result [OF fin]
  have res: "ok1 \<and> ok2 \<and> p' = p3 \<and> dones3 @ dones4 = [(Success, [])]"
    using run dir d1 d2 walk fin c1 c2
    by (auto simp add: PropagateLocalRename_start_def Let_def split: if_splits option.splits)
  then have "dones3 = []"
    using c4 by (cases dones3) auto
  then show ?thesis
    using res c1 c2 c4 walk by auto
qed


lemma renameRecordsBelow_paths:
  assumes contract: "\<forall>item j result j'. updateMetadata env item j = (Inr result, j')
      \<longrightarrow> journalPaths j' = insert (destination item) (journalPaths j)"
    and fresh: "\<forall>a \<in> set rs. \<forall>b \<in> set rs.
      replacePrefix (length oldFile) renameTarget (recordPath a) \<noteq> recordPath b"
    and walk: "renameRecordsBelow env oldFile renameTarget rs j = (j', [])"
  shows "journalPaths j' =
     (journalPaths j - recordPath ` set rs)
       \<union> replacePrefix (length oldFile) renameTarget ` recordPath ` set rs"
  using fresh walk
proof (induction rs arbitrary: j)
  case Nil
  then show ?case by simp
next
  case (Cons r rs)
  let ?new = "replacePrefix (length oldFile) renameTarget (recordPath r)"
  obtain j1 dones1 where step: "renameRecord env oldFile renameTarget r j = (j1, dones1)"
    by (metis surj_pair)
  obtain j2 dones2 where rest: "renameRecordsBelow env oldFile renameTarget rs j1 = (j2, dones2)"
    by (metis surj_pair)
  have "j' = j2" and "dones1 = []" and "dones2 = []"
    using Cons.prems(2) step rest by (simp_all add: Let_def)
  then have step': "renameRecord env oldFile renameTarget r j = (j1, [])"
    and rest': "renameRecordsBelow env oldFile renameTarget rs j1 = (j', [])"
    using step rest by simp_all
  have ne: "recordPath r \<noteq> ?new"
    using Cons.prems(1) by (metis list.set_intros(1))
  obtain converted where upd:
    "updateMetadata env
       ((fromSyncJournalFileRecord (getFileRecord j (recordPath r)))\<lparr>itemFile := ?new\<rparr>)
       (deleteFileRecord (recordPath r) False j) = (Inr converted, j1)"
    using renameRecord_no_done [OF step' ne] by blast
  have dest: "destination
      ((fromSyncJournalFileRecord (getFileRecord j (recordPath r)))\<lparr>itemFile := ?new\<rparr>) = ?new"
    by (simp add: destination_def fromSyncJournalFileRecord_def split: option.splits)
  have p1: "journalPaths j1 = insert ?new (journalPaths j - {recordPath r})"
    using contract upd dest journalPaths_deleteFileRecord by metis
  have fresh': "\<forall>a \<in> set rs. \<forall>b \<in> set rs.
      replacePrefix (length oldFile) renameTarget (recordPath a) \<noteq> recordPath b"
    using Cons.prems(1) by simp
  have p2: "journalPaths j' =
      (journalPaths j1 - recordPath ` set rs)
        \<union> replacePrefix (length oldFile) renameTarget ` recordPath ` set rs"
    using Cons.IH [OF fresh' rest'] .
  have notold: "?new \<notin> recordPath ` set rs"
    using Cons.prems(1) by auto
  show ?case
    using p1 p2 notold by auto
qed

lemma incomparable_prefix:
  assumes "\<not> startsWith renameTarget oldFile" and "\<not> startsWith oldFile renameTarget"
    and "startsWith a oldFile"
  shows "replacePrefix (length oldFile) renameTarget a \<noteq> oldFile @ rest"
proof
  assume eq: "replacePrefix (length oldFile) renameTarget a = oldFile @ rest"
  then have "renameTarget @ drop (length oldFile) a = oldFile @ rest"
    by (simp add: replacePrefix_def)
  then have "take (length oldFile) renameTarget = oldFile \<or> take (length renameTarget) oldFile = renameTarget"
    by (metis append_eq_append_conv_if append_eq_conv_conj)
  then show False
    using assms(1,2) by (simp add: startsWith_def)
qed

lemma journalPaths_getFilesBelowPath:
  "recordPath ` set (getFilesBelowPath j base) = {path \<in> journalPaths j. isBelowPath base path}"
  by (auto simp add: journalPaths_def getFilesBelowPath_def)

lemma isBelowPath_startsWith:
  assumes "base \<noteq> []" and "isBelowPath base path"
  shows "startsWith path base"
proof -
  have whole: "take (Suc (length base)) path = base @ ''/''"
    using assms by (simp add: isBelowPath_def startsWith_def)
  have "take (length base) path = take (length base) (take (Suc (length base)) path)"
    by (simp add: min_def)
  also have "\<dots> = base"
    using whole by simp
  finally show ?thesis
    by (simp add: startsWith_def)
qed

lemma journalPaths_setFileRecord:
  "journalPaths (setFileRecord r j) = insert (recordPath r) (journalPaths j)"
  by (auto simp add: journalPaths_def setFileRecord_def)

lemma renameRecord_in_use:
  assumes inUse: "\<forall>item j. updateMetadata env item j = (Inr Locked, j)"
    and step: "renameRecord env oldFile renameTarget r j = (j', [])"
  shows "journalPaths j' =
     (if recordPath r = replacePrefix (length oldFile) renameTarget (recordPath r)
      then journalPaths j else journalPaths j - {recordPath r})"
proof (cases "recordPath r = replacePrefix (length oldFile) renameTarget (recordPath r)")
  case True
  then show ?thesis
    using step by (simp add: renameRecord_def Let_def)
next
  case False
  obtain converted where
    "updateMetadata env
       ((fromSyncJournalFileRecord (getFileRecord j (recordPath r)))
          \<lparr>itemFile := replacePrefix (length oldFile) renameTarget (recordPath r)\<rparr>)
       (deleteFileRecord (recordPath r) False j) = (Inr converted, j')"
    using renameRecord_no_done [OF step False] by blast
  then have "j' = deleteFileRecord (recordPath r) False j"
    using inUse by simp
  then show ?thesis
    using False by (simp add: journalPaths_deleteFileRecord)
qed

lemma renameRecordsBelow_in_use:
  assumes inUse: "\<forall>item j. updateMetadata env item j = (Inr Locked, j)"
    and walk: "renameRecordsBelow env oldFile renameTarget rs j = (j', [])"
  shows "journalPaths j' =
     journalPaths j
       - {path \<in> recordPath ` set rs. path \<noteq> replacePrefix (length oldFile) renameTarget path}"
  using walk
proof (induction rs arbitrary: j)
  case Nil
  then show ?case by simp
next
  case (Cons r rs)
  obtain j1 dones1 where step: "renameRecord env oldFile renameTarget r j = (j1, dones1)"
    by (metis surj_pair)
  obtain j2 dones2 where rest: "renameRecordsBelow env oldFile renameTarget rs j1 = (j2, dones2)"
    by (metis surj_pair)
  have "j2 = j'" "dones1 = []" "dones2 = []"
    using Cons.prems step rest by (simp_all add: Let_def)
  then have s: "renameRecord env oldFile renameTarget r j = (j1, [])"
    and w: "renameRecordsBelow env oldFile renameTarget rs j1 = (j', [])"
    using step rest by simp_all
  show ?case
    using Cons.IH [OF w] renameRecord_in_use [OF inUse s] by auto
qed

subsection \<open>Facts about JSON objects and the round trip of the files\<close>

lemma json_accessors [simp]:
  "toObject (JObj members) = members"
  "toObject JNull = []"
  "toArray (JArr elements) = elements"
  "toArray JNull = []"
  "toString (JStr s) = s"
  "toString JNull = []"
  by (simp_all add: toObject_def toArray_def toString_def)

lemma fromVariant_text [simp]:
  "toString (fromVariant b) = b"
  "variantToString f (fromVariant b) = b"
  by (simp_all add: fromVariant_def variantToString_def)

lemma map_of_obj_insert: "map_of (obj_insert k v ms) = (map_of ms)(k \<mapsto> v)"
  by (induction ms) auto

lemma obj_value_obj_insert [simp]:
  "obj_value (obj_insert k v ms) k' = (if k' = k then v else obj_value ms k')"
  by (simp add: obj_value_def map_of_obj_insert)

lemma obj_contains_obj_insert [simp]:
  "obj_contains (obj_insert k v ms) k' = (k' = k \<or> obj_contains ms k')"
  by (simp add: obj_contains_def map_of_obj_insert)

lemma obj_value_Nil [simp]: "obj_value [] k = JNull"
  by (simp add: obj_value_def)

lemma obj_value_Cons [simp]:
  "obj_value ((k, v) # ms) k' = (if k' = k then v else obj_value ms k')"
  by (simp add: obj_value_def)

lemma obj_contains_Cons [simp]:
  "obj_contains ((k, v) # ms) k' = (k' = k \<or> obj_contains ms k')"
  by (auto simp add: obj_contains_def)

lemma obj_contains_Nil [simp]: "\<not> obj_contains [] k"
  by (simp add: obj_contains_def)

lemma obj_insert_not_Nil [simp]: "obj_insert k v ms \<noteq> []"
  by (cases ms) (auto split: if_splits)

lemma set_obj_insert_new:
  "k \<notin> fst ` set ms \<Longrightarrow> set (obj_insert k v ms) = insert (k, v) (set ms)"
  by (induction ms) (auto split: if_splits)

lemma keys_obj_insert: "fst ` set (obj_insert k v ms) = insert k (fst ` set ms)"
  by (simp add: dom_map_of_conv_image_fst [symmetric] map_of_obj_insert)


lemma convertFileToJsonObject_not_Nil [simp]: "convertFileToJsonObject env f \<noteq> []"
  by (simp add: convertFileToJsonObject_def)

lemma filesToJson_sets:
  assumes "distinct (map encryptedFilename fs)"
    and "encryptedFilename ` set fs \<inter> (fst ` set filesObj \<union> fst ` set foldersObj) = {}"
  shows "\<exists>filesObj' foldersObj'.
     filesToJson env fs filesObj foldersObj = Some (filesObj', foldersObj')
     \<and> set filesObj' = set filesObj
         \<union> (\<lambda>f. (encryptedFilename f, JObj (convertFileToJsonObject env f)))
             ` {f \<in> set fs. \<not> isDirectoryEntry f}
     \<and> set foldersObj' = set foldersObj
         \<union> (\<lambda>f. (encryptedFilename f, JStr (originalFilename f)))
             ` {f \<in> set fs. isDirectoryEntry f}"
  using assms
proof (induction fs arbitrary: filesObj foldersObj)
  case Nil
  then show ?case by simp
next
  case (Cons f fs)
  have new: "encryptedFilename f \<notin> fst ` set filesObj" "encryptedFilename f \<notin> fst ` set foldersObj"
    using Cons.prems(2) by auto
  have d: "distinct (map encryptedFilename fs)" and nf: "encryptedFilename f \<notin> encryptedFilename ` set fs"
    using Cons.prems(1) by auto
  show ?case
  proof (cases "isDirectoryEntry f")
    case True
    let ?fo = "obj_insert (encryptedFilename f) (JStr (originalFilename f)) foldersObj"
    have disj: "encryptedFilename ` set fs \<inter> (fst ` set filesObj \<union> fst ` set ?fo) = {}"
      using Cons.prems(2) nf by (auto simp add: keys_obj_insert)
    obtain a b where r: "filesToJson env fs filesObj ?fo = Some (a, b)"
      and sa: "set a = set filesObj
         \<union> (\<lambda>f. (encryptedFilename f, JObj (convertFileToJsonObject env f)))
             ` {f \<in> set fs. \<not> isDirectoryEntry f}"
      and sb: "set b = set ?fo
         \<union> (\<lambda>f. (encryptedFilename f, JStr (originalFilename f)))
             ` {f \<in> set fs. isDirectoryEntry f}"
      using Cons.IH [OF d disj] by blast
    have "filesToJson env (f # fs) filesObj foldersObj = Some (a, b)"
      using True r by (simp add: isDirectoryEntry_def Let_def)
    then show ?thesis
      using sa sb True new by (auto simp add: set_obj_insert_new)
  next
    case False
    let ?fi = "obj_insert (encryptedFilename f) (JObj (convertFileToJsonObject env f)) filesObj"
    have disj: "encryptedFilename ` set fs \<inter> (fst ` set ?fi \<union> fst ` set foldersObj) = {}"
      using Cons.prems(2) nf by (auto simp add: keys_obj_insert)
    obtain a b where r: "filesToJson env fs ?fi foldersObj = Some (a, b)"
      and sa: "set a = set ?fi
         \<union> (\<lambda>f. (encryptedFilename f, JObj (convertFileToJsonObject env f)))
             ` {f \<in> set fs. \<not> isDirectoryEntry f}"
      and sb: "set b = set foldersObj
         \<union> (\<lambda>f. (encryptedFilename f, JStr (originalFilename f)))
             ` {f \<in> set fs. isDirectoryEntry f}"
      using Cons.IH [OF d disj] by blast
    have "filesToJson env (f # fs) filesObj foldersObj = Some (a, b)"
      using False r by (simp add: isDirectoryEntry_def Let_def)
    then show ?thesis
      using sa sb False new by (auto simp add: set_obj_insert_new)
  qed
qed

lemma appendParsedFiles_eq:
  "appendParsedFiles env members fs =
     fs @ filter (\<lambda>g. originalFilename g \<noteq> [])
            (map (\<lambda>(k, v). parseEncryptedFileFromJson env k v) members)"
  by (induction env members fs rule: appendParsedFiles.induct) (simp_all add: Let_def)

lemma appendParsedFolders_eq:
  "appendParsedFolders members fs =
     fs @ map (\<lambda>(k, v). emptyEncryptedFile\<lparr>encryptedFilename := k, originalFilename := toString v\<rparr>)
            (filter (\<lambda>(k, v). toString v \<noteq> []) members)"
  by (induction members fs rule: appendParsedFolders.induct) (simp_all add: Let_def)

lemma parse_converted_file:
  assumes "\<forall>b. fromBase64 env (toBase64 env b) = b"
    and "originalFilename f \<noteq> []" and "\<not> isDirectoryEntry f"
  shows "parseEncryptedFileFromJson env (encryptedFilename f) (JObj (convertFileToJsonObject env f)) = f"
  using assms
  by (simp add: parseEncryptedFileFromJson_def convertFileToJsonObject_def isDirectoryEntry_def Let_def)

subsection \<open>The round trip of the users, the checksums and the document\<close>

lemma setupFolderUsers_folderUserToJson:
  assumes b64: "\<forall>b. fromBase64 env (toBase64 env b) = b"
    and ids: "\<forall>u fu. users u = Some fu \<longrightarrow> userId fu = u"
  shows "setupFolderUsers env
           (List.map_filter (\<lambda>u. map_option (folderUserToJson env) (users u)) ks) acc
         = (\<lambda>u. if u \<in> set ks \<and> u \<in> dom users then users u else acc u)"
proof (induction ks arbitrary: acc)
  case Nil
  then show ?case by simp
next
  case (Cons k ks)
  show ?case
  proof (cases "users k")
    case None
    then show ?thesis
      using Cons.IH [of acc] by (auto simp add: fun_eq_iff)
  next
    case (Some fu)
    have k: "userId fu = k" using ids Some by simp
    have step: "setupFolderUsers env (folderUserToJson env fu # rest) acc
          = setupFolderUsers env rest (acc(k \<mapsto> fu))" for rest
      using b64 k by (cases fu) (simp add: folderUserToJson_def Let_def)
    have "setupFolderUsers env
            (List.map_filter (\<lambda>u. map_option (folderUserToJson env) (users u)) (k # ks)) acc
          = setupFolderUsers env
              (List.map_filter (\<lambda>u. map_option (folderUserToJson env) (users u)) ks)
              (acc(k \<mapsto> fu))"
      using Some by (simp add: step del: setupFolderUsers.simps)
    also have "\<dots> = (\<lambda>u. if u \<in> set ks \<and> u \<in> dom users then users u
                           else (acc(k \<mapsto> fu)) u)"
      by (rule Cons.IH)
    also have "\<dots> = (\<lambda>u. if u \<in> set (k # ks) \<and> u \<in> dom users then users u else acc u)"
      using Some by (auto simp add: fun_eq_iff)
    finally show ?thesis .
  qed
qed

lemma map_filter_users_not_Nil:
  assumes "k \<in> set ks" and "users k = Some fu"
  shows "List.map_filter (\<lambda>u. map_option f (users u)) ks \<noteq> []"
  using assms by (induction ks) (auto split: option.splits)

lemma insertKeyChecksums_strings:
  "insertKeyChecksums env (map fromVariant ks) acc = acc \<union> (set ks - {[]})"
  by (induction ks arbitrary: acc) (auto simp add: Let_def)

lemma parsed_files_set:
  assumes b64: "\<forall>b. fromBase64 env (toBase64 env b) = b"
    and names: "\<forall>f \<in> set fs. originalFilename f \<noteq> []"
    and fo: "set filesObj = (\<lambda>f. (encryptedFilename f, JObj (convertFileToJsonObject env f)))
                 ` {f \<in> set fs. \<not> isDirectoryEntry f}"
  shows "set (appendParsedFiles env filesObj []) = {f \<in> set fs. \<not> isDirectoryEntry f}"
proof -
  have p: "parseEncryptedFileFromJson env (encryptedFilename f)
             (JObj (convertFileToJsonObject env f)) = f"
    if "f \<in> set fs" "\<not> isDirectoryEntry f" for f
    using that names b64 by (simp add: parse_converted_file)
  have "set (appendParsedFiles env filesObj [])
        = {g \<in> (\<lambda>(k, v). parseEncryptedFileFromJson env k v) ` set filesObj.
             originalFilename g \<noteq> []}"
    by (auto simp add: appendParsedFiles_eq)
  also have "(\<lambda>(k, v). parseEncryptedFileFromJson env k v) ` set filesObj
        = {f \<in> set fs. \<not> isDirectoryEntry f}"
    unfolding fo using p by (force simp add: image_iff)
  finally show ?thesis using names by auto
qed

lemma parsed_folders_set:
  assumes names: "\<forall>f \<in> set fs. originalFilename f \<noteq> []"
    and fd: "set foldersObj = (\<lambda>f. (encryptedFilename f, JStr (originalFilename f)))
                 ` {f \<in> set fs. isDirectoryEntry f}"
  shows "set (appendParsedFolders foldersObj acc)
         = set acc \<union> roundTripFile ` {f \<in> set fs. isDirectoryEntry f}"
proof -
  have "set (appendParsedFolders foldersObj acc)
        = set acc \<union> (\<lambda>(k, v). emptyEncryptedFile\<lparr>encryptedFilename := k,
                                   originalFilename := toString v\<rparr>)
                       ` {kv \<in> set foldersObj. toString (snd kv) \<noteq> []}"
    by (auto simp add: appendParsedFolders_eq)
  also have "{kv \<in> set foldersObj. toString (snd kv) \<noteq> []} = set foldersObj"
    unfolding fd using names by auto
  also have "(\<lambda>(k, v). emptyEncryptedFile\<lparr>encryptedFilename := k,
                                   originalFilename := toString v\<rparr>) ` set foldersObj
      = roundTripFile ` {f \<in> set fs. isDirectoryEntry f}"
    unfolding fd by (auto simp add: roundTripFile_def image_iff)
  finally show ?thesis .
qed

lemma reparsedMetadata_fields:
  assumes laws: "helperLaws env"
    and valid: "validTopLevel env m"
    and dist: "distinct (map encryptedFilename (files m))"
    and names: "\<forall>f \<in> set (files m). originalFilename f \<noteq> []"
  shows "folderUsers (reparsedMetadata env random iv v m) = folderUsers m
     \<and> keyChecksums (reparsedMetadata env random iv v m) = keyChecksums m
     \<and> set (files (reparsedMetadata env random iv v m)) = roundTripFile ` set (files m)
     \<and> metadataKeyForDecryption (reparsedMetadata env random iv v m) = metadataKeyForEncryption m
     \<and> metadataKeyForEncryption (reparsedMetadata env random iv v m) = metadataKeyForEncryption m
     \<and> versionFromMetadata (reparsedMetadata env random iv v m) = 2"
proof -
  have json: "fromJson env (toJsonCompact env j) = j" "fromJson env (toJsonIndented env j) = j"
      "toJsonCompact env j \<noteq> []" for j
    using laws by (simp_all add: helperLaws_def)
  have b64: "\<forall>b. fromBase64 env (toBase64 env b) = b"
    using laws by (simp add: helperLaws_def)
  have aes: "dataDecryption env key iv' (fst (dataEncryption env key iv' d)) = Some d" for key iv' d
    using laws by (simp add: helperLaws_def)
  have gzip: "\<exists>z. gzipCompress env d = Some z \<and> gzipUncompress env z = Some d" for d
    using laws by (simp add: helperLaws_def)
  have order: "finite S \<Longrightarrow> set (hashOrder env S) = S" for S
    using laws by (simp add: helperLaws_def)
  have top: "topLevelFolderPath m = ''/''" and req: "requiredMetadataVersion m = Version2_0"
    and len: "16 \<le> length (metadataKeyForEncryption m)"
    and sum: "calcSha256 env (take 16 (metadataKeyForEncryption m)) \<in> keyChecksums m"
    and finsums: "finite (keyChecksums m)" and nonempty: "[] \<notin> keyChecksums m"
    and finusers: "finite (dom (folderUsers m))"
    and ids: "\<forall>u fu. folderUsers m u = Some fu \<longrightarrow> userId fu = u"
    using valid by (simp_all add: validTopLevel_def isTopLevelFolder_def metadataKeySize_def)
  obtain me where me: "folderUsers m (davUser (account m)) = Some me"
    and unwrap: "decryptStringAsymmetric env (e2ePrivateKey (account m)) (encryptedMetadataKey me)
                 = metadataKeyForEncryption m"
    using valid by (auto simp add: validTopLevel_def)
  define key where "key = metadataKeyForEncryption m"
  have key: "metadataKeyForEncryption m = key" by (simp add: key_def)
  have keyne: "key \<noteq> []" using len key by auto
  define ks where "ks = hashOrder env (keyChecksums m)"
  have ks: "set ks = keyChecksums m" using order finsums by (simp add: ks_def)
  have ksne: "ks \<noteq> []" using ks sum by auto
  define us where "us = List.map_filter (\<lambda>u. map_option (folderUserToJson env) (folderUsers m u))
                          (hashOrder env (dom (folderUsers m)))"
  have usne: "us \<noteq> []"
    unfolding us_def
    by (rule map_filter_users_not_Nil [where k = "davUser (account m)" and fu = me])
       (use me order finusers in auto)
  have users: "setupFolderUsers env us Map.empty = folderUsers m"
    unfolding us_def
    using setupFolderUsers_folderUserToJson [OF b64 ids, of "hashOrder env (dom (folderUsers m))" Map.empty]
      order [OF finusers]
    by (auto simp add: fun_eq_iff domIff)
  obtain fo fd where ftj: "filesToJson env (files m) [] [] = Some (fo, fd)"
    and fo: "set fo = (\<lambda>f. (encryptedFilename f, JObj (convertFileToJsonObject env f)))
                 ` {f \<in> set (files m). \<not> isDirectoryEntry f}"
    and fd: "set fd = (\<lambda>f. (encryptedFilename f, JStr (originalFilename f)))
                 ` {f \<in> set (files m). isDirectoryEntry f}"
    using filesToJson_sets [OF dist, of "[]" "[]" env] by auto
  define cipherDoc where
    "cipherDoc = JObj [(''files'', JObj fo), (''folders'', JObj fd),
                       (''keyChecksums'', JArr (map fromVariant ks))]"
  obtain z where zip: "gzipCompress env (toJsonCompact env cipherDoc) = Some z"
    and unzip: "gzipUncompress env z = Some (toJsonCompact env cipherDoc)"
    using gzip [of "toJsonCompact env cipherDoc"] by auto
  define metadata where
    "metadata = [(''authenticationTag'', fromVariant (toBase64 env (snd (dataEncryption env key iv z)))),
                 (''ciphertext'', fromVariant (toBase64 env (fst (dataEncryption env key iv z)))),
                 (''nonce'', fromVariant (toBase64 env iv))]"
  define fileDropMeta where
    "fileDropMeta = [(''authenticationTag'',
                        fromVariant (toBase64 env (fileDropMetadataAuthenticationTag m))),
                     (''ciphertext'', fromVariant (fileDropCipherTextEncryptedAndBase64 m)),
                     (''nonce'', fromVariant (toBase64 env (fileDropMetadataNonce m)))]"
  define base where
    "base = [(''metadata'', JObj metadata), (''users'', JArr us), (''version'', JNum 2)]"
  define meta where
    "meta = (if fileDropCipherTextEncryptedAndBase64 m \<noteq> []
             then (''filedrop'', JObj fileDropMeta) # base else base)"
  have notempty: "folderUsers m \<noteq> Map.empty" using me by auto
  have enc: "encryptedMetadata env random iv m = (toJsonIndented env (JObj meta), m)"
    using notempty keyne ksne usne
    by (simp add: encryptedMetadata_def key ftj isTopLevelFolder_def top Let_def
        ks_def [symmetric] us_def [symmetric] cipherDoc_def [symmetric]
        gZipEncryptAndBase64Encode_def zip case_prod_beta metadata_def
        requiredMetadataVersionNumeric_def req fileDropMeta_def base_def meta_def)
  define c0 where "c0 = constructFolderMetadata (account m) Version2_0 ''/'' [] [] {} v"
  define doc where "doc = toJsonIndented env (JObj meta)"
  have c0: "account c0 = account m" "topLevelFolderPath c0 = ''/''" "folderUsers c0 = Map.empty"
      "files c0 = []" "keyChecksums c0 = {}"
    by (simp_all add: c0_def constructFolderMetadata_def)
  have mstr: "metadataStringFromOCsDocument (fromJson env (ocsEnvelope env doc)) = doc"
    by (simp add: ocsEnvelope_def json metadataStringFromOCsDocument_def)
  have inner: "fromJson env doc = JObj meta"
    by (simp add: doc_def json)
  have lookups: "obj_value meta ''version'' = JNum 2" "obj_contains meta ''version''"
      "obj_value meta ''metadata'' = JObj metadata" "obj_value meta ''users'' = JArr us"
      "\<not> obj_contains metadata ''version''"
      "obj_value metadata ''nonce'' = fromVariant (toBase64 env iv)"
      "obj_value metadata ''ciphertext'' = fromVariant (toBase64 env (fst (dataEncryption env key iv z)))"
    by (simp_all add: meta_def base_def metadata_def)
  have ver: "setupVersionFromExistingMetadata env c0 (ocsEnvelope env doc)
             = c0\<lparr>versionFromMetadata := 2\<rparr>"
    by (simp add: setupVersionFromExistingMetadata_def Let_def mstr inner lookups toInt_def)
  have mv: "metadataVersion (c0\<lparr>versionFromMetadata := 2\<rparr>) = Version2_0"
    by (simp add: metadataVersion_def)
  have plain: "base64DecodeDecryptAndGzipUnZip env key
                 (toBase64 env (fst (dataEncryption env key iv z))) iv = toJsonCompact env cipherDoc"
    using b64 by (simp add: base64DecodeDecryptAndGzipUnZip_def aes unzip)
  have cipher: "obj_value (toObject cipherDoc) ''keyChecksums'' = JArr (map fromVariant ks)"
      "obj_value (toObject cipherDoc) ''files'' = JObj fo"
      "obj_value (toObject cipherDoc) ''folders'' = JObj fd"
    by (simp_all add: cipherDoc_def)
  have sums: "insertKeyChecksums env (map fromVariant ks) {} = keyChecksums m"
    using ks nonempty by (auto simp add: insertKeyChecksums_strings)
  have unwrapped: "decryptStringAsymmetric env (e2ePrivateKey (account m)) (encryptedMetadataKey me)
                   = key"
    using unwrap by (simp add: key)
  have result: "reparsedMetadata env random iv v m
      = c0\<lparr>versionFromMetadata := 2,
            fileDropCipherTextEncryptedAndBase64 :=
              toString (obj_value (toObject (obj_value meta ''filedrop'')) ''ciphertext''),
            fileDropMetadataAuthenticationTag :=
              fromBase64 env (toString (obj_value (toObject (obj_value meta ''filedrop''))
                 ''authenticationTag'')),
            fileDropMetadataNonce :=
              fromBase64 env (toString (obj_value (toObject (obj_value meta ''filedrop'')) ''nonce'')),
            folderUsers := folderUsers m,
            metadataKeyForEncryption := key,
            metadataKeyForDecryption := key,
            fileDropKey := decryptData env c0 (encryptedFiledropKey me),
            metadataNonce := iv,
            keyChecksums := keyChecksums m,
            files := appendParsedFolders fd (appendParsedFiles env fo [])\<rparr>"
    using keyne ksne usne b64 len sum
    by (simp add: reparsedMetadata_def enc c0_def [symmetric] doc_def [symmetric]
        setupExistingMetadata_def ver mv Let_def mstr inner lookups c0 isTopLevelFolder_def
        users me unwrapped plain json cipher sums verifyMetadataKey_def metadataKeySize_def key
        decryptData_def)
  show ?thesis
    using parsed_files_set [OF b64 names fo] parsed_folders_set [OF names fd, of "appendParsedFiles env fo []"]
    by (auto simp add: result roundTripFile_def key)
qed

lemma helperLaws_toyEnv: "helperLaws toyEnv"
  by (simp add: helperLaws_def) (simp add: toyEnv_def)

lemma validTopLevel_ownedMetadata: "validTopLevel toyEnv (ownedMetadata fs)"
  by (simp add: validTopLevel_def ownedMetadata_def blankMetadata_def isTopLevelFolder_def
      metadataKeySize_def key1_def alice_def sampleAccount_def)

subsection \<open>The round trip of the metadata\<close>

text \<open>
  Claim C1 says that the document of \<^verbatim>\<open>encryptedMetadata\<close>, parsed again by
  \<^verbatim>\<open>setupExistingMetadata\<close>, gives the files, the users and the checksums of the object
  it was made from. For the files this does not hold as stated: a directory entry is
  written into the \<^verbatim>\<open>folders\<close> object with its two names only, so its mime type, key, nonce
  and tag are lost. The directory \<open>photos\<close> comes back as another entry.
\<close>

theorem encryptedMetadata_round_trip_counterexample:
  "helperLaws toyEnv \<and> validTopLevel toyEnv (ownedMetadata [sampleDirectory])
   \<and> set (files (reparsedMetadata toyEnv [] ''nonce'' 0 (ownedMetadata [sampleDirectory])))
       \<noteq> set (files (ownedMetadata [sampleDirectory]))"
  using reparsedMetadata_fields [where env = toyEnv
      and m = "ownedMetadata [sampleDirectory]" and random = "[]"
      and iv = "''nonce''" and v = 0]
    helperLaws_toyEnv validTopLevel_ownedMetadata [of "[sampleDirectory]"]
  by (simp add: ownedMetadata_def sampleDirectory_def roundTripFile_def
      isDirectoryEntry_def emptyEncryptedFile_def)


text \<open>
  C1 as the code has it. Let the helpers obey their laws (\<open>helperLaws\<close>), let the object be
  a top-level object fit for an upload (\<open>validTopLevel\<close>), and let its files have distinct
  encrypted names and non-empty original names. Then the document that
  \<^verbatim>\<open>encryptedMetadata\<close> returns, parsed by \<^verbatim>\<open>setupExistingMetadata\<close> into a new object of the same
  account, gives the same users and the same checksums, and, as a set, the files in which
  every directory entry is reduced to its two names and every other entry is unchanged.
  This holds for every nonce and whatever version the new object starts with.
\<close>

theorem encryptedMetadata_round_trip:
  assumes "helperLaws env" and "validTopLevel env m"
    and "distinct (map encryptedFilename (files m))"
    and "\<forall>f \<in> set (files m). originalFilename f \<noteq> []"
  shows "folderUsers (reparsedMetadata env random iv v m) = folderUsers m
     \<and> keyChecksums (reparsedMetadata env random iv v m) = keyChecksums m
     \<and> set (files (reparsedMetadata env random iv v m)) = roundTripFile ` set (files m)"
  using reparsedMetadata_fields [OF assms, of random iv v] by simp


text \<open>
  C1 at the sample folder in the small environment: the file \<open>a.txt\<close> comes back as it
  was, the directory \<open>photos\<close> with its two names.
\<close>

theorem encryptedMetadata_round_trip_witness:
  "helperLaws toyEnv \<and> validTopLevel toyEnv (ownedMetadata [sampleFile, sampleDirectory])
   \<and> folderUsers (reparsedMetadata toyEnv [] ''nonce'' 0 (ownedMetadata [sampleFile, sampleDirectory]))
       = [''alice'' \<mapsto> alice]
   \<and> keyChecksums (reparsedMetadata toyEnv [] ''nonce'' 0 (ownedMetadata [sampleFile, sampleDirectory]))
       = {''sha256:'' @ key1}
   \<and> set (files (reparsedMetadata toyEnv [] ''nonce'' 0 (ownedMetadata [sampleFile, sampleDirectory])))
       = {sampleFile,
          emptyEncryptedFile\<lparr>encryptedFilename := ''enc2'', originalFilename := ''photos''\<rparr>}"
  using encryptedMetadata_round_trip [where env = toyEnv
      and m = "ownedMetadata [sampleFile, sampleDirectory]" and random = "[]"
      and iv = "''nonce''" and v = 0]
    helperLaws_toyEnv validTopLevel_ownedMetadata [of "[sampleFile, sampleDirectory]"]
  by (simp add: ownedMetadata_def sampleFile_def sampleDirectory_def roundTripFile_def
      isDirectoryEntry_def)

subsection \<open>Verifying a metadata key\<close>

text \<open>
  Claim C4 says that \<^verbatim>\<open>verifyMetadataKey\<close> rejects every key whose checksum is not in a
  non-empty checksum set of a top-level folder, and accepts every key when the checksum
  set of a folder below the top level is empty. Neither holds as stated. Metadata of a
  version below 2 accepts every key, also in a top-level folder with checksums; and with
  version 2 and an empty checksum set a key of fewer than 16 bytes is rejected.
\<close>

theorem verifyMetadataKey_counterexample:
  "isTopLevelFolder (blankMetadata 1\<lparr>keyChecksums := {''other''}\<rparr>)
   \<and> keyChecksums (blankMetadata 1\<lparr>keyChecksums := {''other''}\<rparr>) \<noteq> {}
   \<and> calcSha256 toyEnv key1 \<notin> keyChecksums (blankMetadata 1\<lparr>keyChecksums := {''other''}\<rparr>)
   \<and> verifyMetadataKey toyEnv (blankMetadata 1\<lparr>keyChecksums := {''other''}\<rparr>) key1
   \<and> \<not> isTopLevelFolder (blankMetadata 2\<lparr>topLevelFolderPath := ''/top''\<rparr>)
   \<and> keyChecksums (blankMetadata 2\<lparr>topLevelFolderPath := ''/top''\<rparr>) = {}
   \<and> \<not> verifyMetadataKey toyEnv (blankMetadata 2\<lparr>topLevelFolderPath := ''/top''\<rparr>) ''short''"
  by (simp add: verifyMetadataKey_def blankMetadata_def isTopLevelFolder_def toyEnv_def key1_def
      metadataKeySize_def)


text \<open>
  C4 as the code has it. Metadata of a version below 2 accepts every key. From version 2
  on, a key of fewer than 16 bytes is rejected; a key is rejected when the checksum set is
  not empty and does not hold the checksum of the key's first 16 bytes; a key of at least
  16 bytes is accepted when the checksum of its first 16 bytes is in the set, and when
  the set is empty. Whether the folder is the top-level folder plays no role.
\<close>

theorem verifyMetadataKey_by_version:
  "(versionFromMetadata m < 2 \<longrightarrow> verifyMetadataKey env m k)
   \<and> (2 \<le> versionFromMetadata m \<and> length k < metadataKeySize \<longrightarrow> \<not> verifyMetadataKey env m k)
   \<and> (2 \<le> versionFromMetadata m \<and> keyChecksums m \<noteq> {}
        \<and> calcSha256 env (take metadataKeySize k) \<notin> keyChecksums m
        \<longrightarrow> \<not> verifyMetadataKey env m k)
   \<and> (2 \<le> versionFromMetadata m \<and> metadataKeySize \<le> length k
        \<and> calcSha256 env (take metadataKeySize k) \<in> keyChecksums m
        \<longrightarrow> verifyMetadataKey env m k)
   \<and> (2 \<le> versionFromMetadata m \<and> metadataKeySize \<le> length k \<and> keyChecksums m = {}
        \<longrightarrow> verifyMetadataKey env m k)"
  by (auto simp add: verifyMetadataKey_def Let_def metadataKeySize_def)


text \<open>The five cases of C4 at sample objects of the small environment.\<close>

theorem verifyMetadataKey_by_version_witness:
  "verifyMetadataKey toyEnv (blankMetadata 1) []
   \<and> \<not> verifyMetadataKey toyEnv (blankMetadata 2) ''short''
   \<and> \<not> verifyMetadataKey toyEnv (blankMetadata 2\<lparr>keyChecksums := {''other''}\<rparr>) key1
   \<and> verifyMetadataKey toyEnv (blankMetadata 2\<lparr>keyChecksums := {''sha256:'' @ key1}\<rparr>) key3
   \<and> verifyMetadataKey toyEnv (blankMetadata 2\<lparr>topLevelFolderPath := ''/top''\<rparr>) key1"
proof -
  have a: "versionFromMetadata (blankMetadata 1) < 2"
    by (simp add: blankMetadata_def)
  have b: "2 \<le> versionFromMetadata (blankMetadata 2) \<and> length ''short'' < metadataKeySize"
    by (simp add: blankMetadata_def metadataKeySize_def)
  have c: "2 \<le> versionFromMetadata (blankMetadata 2\<lparr>keyChecksums := {''other''}\<rparr>)
      \<and> keyChecksums (blankMetadata 2\<lparr>keyChecksums := {''other''}\<rparr>) \<noteq> {}
      \<and> calcSha256 toyEnv (take metadataKeySize key1)
          \<notin> keyChecksums (blankMetadata 2\<lparr>keyChecksums := {''other''}\<rparr>)"
    by (simp add: blankMetadata_def metadataKeySize_def toyEnv_def key1_def)
  have d: "2 \<le> versionFromMetadata (blankMetadata 2\<lparr>keyChecksums := {''sha256:'' @ key1}\<rparr>)
      \<and> metadataKeySize \<le> length key3
      \<and> calcSha256 toyEnv (take metadataKeySize key3)
          \<in> keyChecksums (blankMetadata 2\<lparr>keyChecksums := {''sha256:'' @ key1}\<rparr>)"
    by (simp add: blankMetadata_def metadataKeySize_def toyEnv_def key1_def key3_def)
  have e: "2 \<le> versionFromMetadata (blankMetadata 2\<lparr>topLevelFolderPath := ''/top''\<rparr>)
      \<and> metadataKeySize \<le> length key1
      \<and> keyChecksums (blankMetadata 2\<lparr>topLevelFolderPath := ''/top''\<rparr>) = {}"
    by (simp add: blankMetadata_def metadataKeySize_def key1_def)
  have 1: "verifyMetadataKey toyEnv (blankMetadata 1) []"
    using a verifyMetadataKey_by_version [where m = "blankMetadata 1" and env = toyEnv and k = "[]"]
    by simp
  have 2: "\<not> verifyMetadataKey toyEnv (blankMetadata 2) ''short''"
    using b verifyMetadataKey_by_version
      [where m = "blankMetadata 2" and env = toyEnv and k = "''short''"]
    by simp
  have 3: "\<not> verifyMetadataKey toyEnv (blankMetadata 2\<lparr>keyChecksums := {''other''}\<rparr>) key1"
    using c verifyMetadataKey_by_version
      [where m = "blankMetadata 2\<lparr>keyChecksums := {''other''}\<rparr>" and env = toyEnv and k = key1]
    by simp
  have 4: "verifyMetadataKey toyEnv (blankMetadata 2\<lparr>keyChecksums := {''sha256:'' @ key1}\<rparr>) key3"
    using d verifyMetadataKey_by_version
      [where m = "blankMetadata 2\<lparr>keyChecksums := {''sha256:'' @ key1}\<rparr>" and env = toyEnv
         and k = key3]
    by simp
  have 5: "verifyMetadataKey toyEnv (blankMetadata 2\<lparr>topLevelFolderPath := ''/top''\<rparr>) key1"
    using e verifyMetadataKey_by_version
      [where m = "blankMetadata 2\<lparr>topLevelFolderPath := ''/top''\<rparr>" and env = toyEnv and k = key1]
    by simp
  from 1 2 3 4 5 show ?thesis
    by simp
qed

subsection \<open>Moving the file drop section into the files\<close>

text \<open>
  Claim C10: \<^verbatim>\<open>moveFromFileDropToFiles\<close> returns false and leaves the object as it is when
  the file drop ciphertext, the metadata key for encryption or the metadata nonce is
  empty. When it returns true the file drop ciphertext is cleared, so
  \<^verbatim>\<open>isFileDropPresent()\<close> is false afterwards, and calling it again at once returns false
  and changes nothing.
\<close>

theorem moveFromFileDropToFiles_contract:
  "(fileDropCipherTextEncryptedAndBase64 m = [] \<or> metadataKeyForEncryption m = []
      \<or> metadataNonce m = []
      \<longrightarrow> moveFromFileDropToFiles env m = (False, m))
   \<and> (fst (moveFromFileDropToFiles env m)
      \<longrightarrow> fileDropCipherTextEncryptedAndBase64 (snd (moveFromFileDropToFiles env m)) = []
          \<and> \<not> isFileDropPresent (snd (moveFromFileDropToFiles env m))
          \<and> moveFromFileDropToFiles env (snd (moveFromFileDropToFiles env m))
              = (False, snd (moveFromFileDropToFiles env m)))"
  by (simp add: moveFromFileDropToFiles_def isFileDropPresent_def Let_def)


text \<open>C10 at an object without a file drop section and at one with a file drop section.\<close>

theorem moveFromFileDropToFiles_contract_witness:
  "moveFromFileDropToFiles toyEnv (blankMetadata 2) = (False, blankMetadata 2)
   \<and> fst (moveFromFileDropToFiles toyEnv fileDropMetadata)
   \<and> \<not> isFileDropPresent (snd (moveFromFileDropToFiles toyEnv fileDropMetadata))
   \<and> \<not> fst (moveFromFileDropToFiles toyEnv (snd (moveFromFileDropToFiles toyEnv fileDropMetadata)))"
proof -
  have a: "fileDropCipherTextEncryptedAndBase64 (blankMetadata 2) = []"
    by (simp add: blankMetadata_def)
  have b: "fst (moveFromFileDropToFiles toyEnv fileDropMetadata)"
    by (simp add: moveFromFileDropToFiles_def fileDropMetadata_def blankMetadata_def key1_def
        Let_def)
  have 1: "moveFromFileDropToFiles toyEnv (blankMetadata 2) = (False, blankMetadata 2)"
    using a moveFromFileDropToFiles_contract [where m = "blankMetadata 2" and env = toyEnv]
    by simp
  have 2: "\<not> isFileDropPresent (snd (moveFromFileDropToFiles toyEnv fileDropMetadata))
      \<and> \<not> fst (moveFromFileDropToFiles toyEnv
               (snd (moveFromFileDropToFiles toyEnv fileDropMetadata)))"
    using b moveFromFileDropToFiles_contract [where m = fileDropMetadata and env = toyEnv]
    by simp
  from 1 2 b show ?thesis
    by simp
qed

subsection \<open>Rotating the metadata key\<close>

text \<open>
  Claim C2 says that \<^verbatim>\<open>addUser\<close> and \<^verbatim>\<open>removeUser\<close> of a top-level folder always rotate the
  metadata key and wrap the new key again for every user that remains in the folder-user
  map. That fails for a user whose stored certificate is null: the loop of
  \<^verbatim>\<open>updateUsersEncryptedMetadataKey\<close> skips such a user, who keeps the wrapped key it had.
  Here \<open>carol\<close> is added with a good certificate, the key is rotated, and \<open>bob\<close> is left
  as he was.
\<close>

theorem addUser_rotation_counterexample:
  "isTopLevelFolder sharedMetadata
   \<and> fst (addUser toyEnv key2 sharedMetadata ''carol'' ''CERT:carol-key'')
   \<and> metadataKeyForEncryption (snd (addUser toyEnv key2 sharedMetadata ''carol'' ''CERT:carol-key''))
       = key2
   \<and> certificateIsNull toyEnv (certificatePem bob)
   \<and> folderUsers sharedMetadata ''bob'' = Some bob
   \<and> folderUsers (snd (addUser toyEnv key2 sharedMetadata ''carol'' ''CERT:carol-key'')) ''bob''
       = Some bob"
  by (simp add: addUser_def updateUsersEncryptedMetadataKey_def updateFolderUser_def
      createNewMetadataKeyForEncryption_def isTopLevelFolder_def sharedMetadata_def
      blankMetadata_def toyEnv_def bob_def key1_def key2_def Let_def)


text \<open>
  C2 as the code has it. Let the folder be top-level, the user id non-empty, the
  certificate one with a public key, and let the random generator return non-empty keys.
  Then \<^verbatim>\<open>addUser\<close> returns true, the generated key becomes the key for encryption, the
  checksum of the old key (if there was an old key) leaves the checksum set and the
  checksum of the new key enters it, the new user is stored with the new key wrapped
  under the public key of the given certificate, and every other user whose stored
  certificate has a public key, and for whom the encryption gives a result, gets the new
  key wrapped under that public key; the other users keep their entry. The same holds
  for \<^verbatim>\<open>removeUser\<close> of a non-empty user id, which leaves no entry for that user. After
  \<^verbatim>\<open>addUser\<close> and then \<^verbatim>\<open>removeUser\<close> of the same user no wrapped key of that user remains,
  and the checksum of the key that \<^verbatim>\<open>removeUser\<close> rotated away is not in the checksum set,
  provided the newly generated key has another checksum.
\<close>

theorem addUser_removeUser_rotate:
  assumes "isTopLevelFolder m"
    and "user \<noteq> []" and "\<not> certificateIsNull env certificate"
    and "certificatePublicKey env certificate \<noteq> []"
    and "random1 \<noteq> []" and "random2 \<noteq> []"
    and "addUser env random1 m user certificate = (ok1, m1)"
    and "removeUser env random2 m1 user = (ok2, m2)"
    and "removed \<noteq> []" and "random3 \<noteq> []"
    and "removeUser env random3 m removed = (ok3, m3)"
  shows "(ok1
      \<and> metadataKeyForEncryption m1 = random1
      \<and> keyChecksums m1 =
          insert (calcSha256 env random1)
            (keyChecksums m -
               (if metadataKeyForEncryption m = [] then {}
                else {calcSha256 env (metadataKeyForEncryption m)}))
      \<and> folderUsers m1 user =
          Some \<lparr>userId = user, certificatePem = certificate,
                encryptedMetadataKey =
                  encryptData env random1 (certificatePublicKey env certificate),
                encryptedFiledropKey = []\<rparr>
      \<and> (\<forall>u fu. u \<noteq> user \<and> folderUsers m u = Some fu \<longrightarrow>
            folderUsers m1 u =
              Some (if certificateIsNull env (certificatePem fu)
                       \<or> certificatePublicKey env (certificatePem fu) = []
                       \<or> encryptData env random1 (certificatePublicKey env (certificatePem fu)) = []
                    then fu
                    else fu\<lparr>encryptedMetadataKey :=
                      encryptData env random1 (certificatePublicKey env (certificatePem fu))\<rparr>)))
    \<and> (ok3
      \<and> metadataKeyForEncryption m3 = random3
      \<and> keyChecksums m3 =
          insert (calcSha256 env random3)
            (keyChecksums m -
               (if metadataKeyForEncryption m = [] then {}
                else {calcSha256 env (metadataKeyForEncryption m)}))
      \<and> folderUsers m3 removed = None
      \<and> (\<forall>u fu. u \<noteq> removed \<and> folderUsers m u = Some fu \<longrightarrow>
            folderUsers m3 u =
              Some (if certificateIsNull env (certificatePem fu)
                       \<or> certificatePublicKey env (certificatePem fu) = []
                       \<or> encryptData env random3 (certificatePublicKey env (certificatePem fu)) = []
                    then fu
                    else fu\<lparr>encryptedMetadataKey :=
                      encryptData env random3 (certificatePublicKey env (certificatePem fu))\<rparr>)))
    \<and> (ok2
      \<and> folderUsers m2 user = None
      \<and> metadataKeyForEncryption m2 = random2
      \<and> keyChecksums m2 = insert (calcSha256 env random2) (keyChecksums m1 - {calcSha256 env random1})
      \<and> (calcSha256 env random1 \<noteq> calcSha256 env random2
          \<longrightarrow> calcSha256 env random1 \<notin> keyChecksums m2))"
proof -
  note a = addUser_result [OF assms(1,2,5,3,4,7)]
  have top1: "isTopLevelFolder m1" and key1: "metadataKeyForEncryption m1 = random1"
    using a by simp_all
  note r = removeUser_result [OF top1 assms(2,6,8)]
  note r3 = removeUser_result [OF assms(1,9,10,11)]
  have p1: "\<forall>u fu. u \<noteq> user \<and> folderUsers m u = Some fu \<longrightarrow>
      folderUsers m1 u = Some (updateFolderUser env random1 fu)"
    using a by simp
  have p3: "\<forall>u fu. u \<noteq> removed \<and> folderUsers m u = Some fu \<longrightarrow>
      folderUsers m3 u = Some (updateFolderUser env random3 fu)"
    using r3 by simp
  have c1: "ok1 \<and> metadataKeyForEncryption m1 = random1
      \<and> keyChecksums m1 =
          insert (calcSha256 env random1)
            (keyChecksums m -
               (if metadataKeyForEncryption m = [] then {}
                else {calcSha256 env (metadataKeyForEncryption m)}))
      \<and> folderUsers m1 user =
          Some \<lparr>userId = user, certificatePem = certificate,
                encryptedMetadataKey =
                  encryptData env random1 (certificatePublicKey env certificate),
                encryptedFiledropKey = []\<rparr>"
    using a by simp
  have c3: "ok3 \<and> metadataKeyForEncryption m3 = random3
      \<and> keyChecksums m3 =
          insert (calcSha256 env random3)
            (keyChecksums m -
               (if metadataKeyForEncryption m = [] then {}
                else {calcSha256 env (metadataKeyForEncryption m)}))
      \<and> folderUsers m3 removed = None"
    using r3 by simp
  have c2: "ok2 \<and> folderUsers m2 user = None \<and> metadataKeyForEncryption m2 = random2
      \<and> keyChecksums m2 = insert (calcSha256 env random2) (keyChecksums m1 - {calcSha256 env random1})"
    using r key1 assms(5) by simp
  have c2': "calcSha256 env random1 \<noteq> calcSha256 env random2
          \<longrightarrow> calcSha256 env random1 \<notin> keyChecksums m2"
    using c2 by simp
  show ?thesis
    using c1 c2 c2' c3 p1 p3 unfolding updateFolderUser_eq by blast
qed


text \<open>C2 at the shared sample folder: \<open>carol\<close> is added and removed again, \<open>dave\<close> is removed.\<close>

theorem addUser_removeUser_rotate_witness:
  "fst (addUser toyEnv key2 sharedMetadata ''carol'' ''CERT:carol-key'')
   \<and> folderUsers (snd (addUser toyEnv key2 sharedMetadata ''carol'' ''CERT:carol-key'')) ''carol''
       = Some \<lparr>userId = ''carol'', certificatePem = ''CERT:carol-key'',
               encryptedMetadataKey = ''carol-key'' @ key2, encryptedFiledropKey = []\<rparr>
   \<and> fst (removeUser toyEnv key3
            (snd (addUser toyEnv key2 sharedMetadata ''carol'' ''CERT:carol-key'')) ''carol'')
   \<and> folderUsers (snd (removeUser toyEnv key3
            (snd (addUser toyEnv key2 sharedMetadata ''carol'' ''CERT:carol-key'')) ''carol''))
         ''carol'' = None
   \<and> calcSha256 toyEnv key2 \<notin> keyChecksums (snd (removeUser toyEnv key3
            (snd (addUser toyEnv key2 sharedMetadata ''carol'' ''CERT:carol-key'')) ''carol''))
   \<and> fst (removeUser toyEnv key2 sharedMetadata ''dave'')
   \<and> folderUsers (snd (removeUser toyEnv key2 sharedMetadata ''dave'')) ''dave'' = None"
proof -
  let ?add = "addUser toyEnv key2 sharedMetadata ''carol'' ''CERT:carol-key''"
  let ?rem = "removeUser toyEnv key3 (snd ?add) ''carol''"
  let ?rem3 = "removeUser toyEnv key2 sharedMetadata ''dave''"
  have a: "isTopLevelFolder sharedMetadata"
    by (simp add: isTopLevelFolder_def sharedMetadata_def blankMetadata_def)
  have b: "''carol'' \<noteq> []" and c: "\<not> certificateIsNull toyEnv ''CERT:carol-key''"
    and d: "certificatePublicKey toyEnv ''CERT:carol-key'' \<noteq> []"
    and e: "key2 \<noteq> []" and f: "key3 \<noteq> []" and g: "''dave'' \<noteq> []"
    by (simp_all add: toyEnv_def key2_def key3_def)
  have h: "?add = (fst ?add, snd ?add)" and i: "?rem = (fst ?rem, snd ?rem)"
    and j: "?rem3 = (fst ?rem3, snd ?rem3)"
    by simp_all
  note t = addUser_removeUser_rotate [OF a b c d e f h i g e j]
  have ne: "calcSha256 toyEnv key2 \<noteq> calcSha256 toyEnv key3"
    by (simp add: toyEnv_def key2_def key3_def)
  have k: "encryptData toyEnv key2 (certificatePublicKey toyEnv ''CERT:carol-key'')
      = ''carol-key'' @ key2"
    by (simp add: toyEnv_def encryptData_def)
  from t ne k show ?thesis
    by simp
qed

text \<open>
  Claim C9 says that \<^verbatim>\<open>removeUser\<close> of a non-empty user id that is not in the folder-user
  map still rotates the key, wraps the new key for all existing users and returns true.
  It does rotate and return true, but an existing user whose stored certificate is null
  is skipped by the loop and keeps the old wrapped key, as \<open>bob\<close> does here.
\<close>

theorem removeUser_absent_user_counterexample:
  "isTopLevelFolder sharedMetadata
   \<and> folderUsers sharedMetadata ''carol'' = None
   \<and> fst (removeUser toyEnv key2 sharedMetadata ''carol'')
   \<and> metadataKeyForEncryption (snd (removeUser toyEnv key2 sharedMetadata ''carol'')) = key2
   \<and> certificateIsNull toyEnv (certificatePem bob)
   \<and> folderUsers sharedMetadata ''bob'' = Some bob
   \<and> folderUsers (snd (removeUser toyEnv key2 sharedMetadata ''carol'')) ''bob'' = Some bob"
  by (simp add: removeUser_def updateUsersEncryptedMetadataKey_def updateFolderUser_def
      createNewMetadataKeyForEncryption_def isTopLevelFolder_def sharedMetadata_def
      blankMetadata_def toyEnv_def bob_def key1_def key2_def Let_def)


text \<open>
  C9 as the code has it. For a top-level folder, a non-empty user id that is not in the
  folder-user map and a non-empty generated key, \<^verbatim>\<open>removeUser\<close> returns true, installs the
  generated key, takes the checksum of the old key (if there was one) out of the checksum
  set and puts the checksum of the new key in, and keeps the users of the map; every user
  whose stored certificate has a public key, and for whom the encryption gives a result,
  gets the new key wrapped under that public key, every other user keeps its entry.
\<close>

theorem removeUser_absent_user_rotates:
  assumes "isTopLevelFolder m" and "user \<noteq> []" and "folderUsers m user = None"
    and "random \<noteq> []"
    and "removeUser env random m user = (ok, m')"
  shows "ok
    \<and> metadataKeyForEncryption m' = random
    \<and> keyChecksums m' =
        insert (calcSha256 env random)
          (keyChecksums m -
             (if metadataKeyForEncryption m = [] then {}
              else {calcSha256 env (metadataKeyForEncryption m)}))
    \<and> (metadataKeyForEncryption m \<noteq> []
          \<and> calcSha256 env (metadataKeyForEncryption m) \<noteq> calcSha256 env random
        \<longrightarrow> calcSha256 env (metadataKeyForEncryption m) \<notin> keyChecksums m')
    \<and> dom (folderUsers m') = dom (folderUsers m)
    \<and> (\<forall>u fu. folderUsers m u = Some fu \<longrightarrow>
          folderUsers m' u =
            Some (if certificateIsNull env (certificatePem fu)
                     \<or> certificatePublicKey env (certificatePem fu) = []
                     \<or> encryptData env random (certificatePublicKey env (certificatePem fu)) = []
                  then fu
                  else fu\<lparr>encryptedMetadataKey :=
                    encryptData env random (certificatePublicKey env (certificatePem fu))\<rparr>))"
proof -
  note r = removeUser_result [OF assms(1,2,4,5)]
  have users: "folderUsers m' u = map_option (updateFolderUser env random) (folderUsers m u)" for u
  proof (cases "u = user")
    case True
    then show ?thesis using r assms(3) by simp
  next
    case False
    then show ?thesis using r by simp
  qed
  have "dom (folderUsers m') = dom (folderUsers m)"
    by (auto simp add: users dom_def)
  moreover have "\<forall>u fu. folderUsers m u = Some fu \<longrightarrow>
      folderUsers m' u = Some (updateFolderUser env random fu)"
    by (simp add: users)
  ultimately show ?thesis
    using r by (simp add: updateFolderUser_eq)
qed


text \<open>C9 at the shared sample folder, from which the unknown user \<open>carol\<close> is removed.\<close>

theorem removeUser_absent_user_rotates_witness:
  "fst (removeUser toyEnv key2 sharedMetadata ''carol'')
   \<and> metadataKeyForEncryption (snd (removeUser toyEnv key2 sharedMetadata ''carol'')) = key2
   \<and> keyChecksums (snd (removeUser toyEnv key2 sharedMetadata ''carol'')) = {''sha256:'' @ key2}
   \<and> folderUsers (snd (removeUser toyEnv key2 sharedMetadata ''carol'')) ''dave''
       = Some (dave\<lparr>encryptedMetadataKey := ''dave-key'' @ key2\<rparr>)"
proof -
  have a: "isTopLevelFolder sharedMetadata"
    by (simp add: isTopLevelFolder_def sharedMetadata_def blankMetadata_def)
  have b: "''carol'' \<noteq> []" and c: "folderUsers sharedMetadata ''carol'' = None"
    and d: "key2 \<noteq> []"
    by (simp_all add: sharedMetadata_def key2_def)
  have e: "removeUser toyEnv key2 sharedMetadata ''carol''
      = (fst (removeUser toyEnv key2 sharedMetadata ''carol''),
         snd (removeUser toyEnv key2 sharedMetadata ''carol''))"
    by simp
  note t = removeUser_absent_user_rotates [OF a b c d e]
  have dv: "folderUsers sharedMetadata ''dave'' = Some dave"
    by (simp add: sharedMetadata_def)
  have sums: "keyChecksums sharedMetadata = {''sha256:'' @ key1}"
    and old: "metadataKeyForEncryption sharedMetadata = key1"
    by (simp_all add: sharedMetadata_def)
  have 1: "folderUsers (snd (removeUser toyEnv key2 sharedMetadata ''carol'')) ''dave''
       = Some (dave\<lparr>encryptedMetadataKey := ''dave-key'' @ key2\<rparr>)"
    using t dv by (simp add: toyEnv_def dave_def encryptData_def key2_def)
  have 2: "keyChecksums (snd (removeUser toyEnv key2 sharedMetadata ''carol''))
      = {''sha256:'' @ key2}"
    using t sums old by (simp add: toyEnv_def key1_def)
  from t 1 2 show ?thesis
    by simp
qed

subsection \<open>Documents of a version below 1.0\<close>

text \<open>
  Claim C3 says that a document whose version is below 1.0 makes
  \<^verbatim>\<open>setupExistingMetadata\<close> stop before anything is parsed, with no metadata key set up and
  without taking the legacy path. The source has a guard for that, but the guard compares
  \<^verbatim>\<open>metadataVersion()\<close> with \<open>Version1\<close>, and \<^verbatim>\<open>metadataVersion()\<close> is never below \<open>Version1\<close>. So
  every document of a version below 1.0 is handed to the legacy migration.
\<close>

theorem setupExistingMetadata_low_version_is_legacy:
  assumes "versionFromMetadata (setupVersionFromExistingMetadata env m metadata) < 1"
  shows "setupExistingMetadata env m metadata =
     setupExistingLegacyMetadataForMigration env
       (setupVersionFromExistingMetadata env m metadata) metadata"
  using assms by (simp add: setupExistingMetadata_def Let_def metadataVersion_eq)


text \<open>
  A document of version 0 in the legacy layout: the legacy path unwraps its metadata key,
  parses its file and marks the object as set up and in need of migration.
\<close>

theorem setupExistingMetadata_low_version_is_legacy_witness:
  "versionFromMetadata
     (setupVersionFromExistingMetadata toyEnv (blankMetadata (- 1)) (legacyDocument 0)) = 0
   \<and> files (setupExistingMetadata toyEnv (blankMetadata (- 1)) (legacyDocument 0)) =
       [\<lparr>encryptionKey = ''file-key'', mimetype = ''text/plain'',
         initializationVector = ''iv'', authenticationTag = ''tag'',
         encryptedFilename = ''enc1'', originalFilename = ''a.txt''\<rparr>]
   \<and> metadataKeyForDecryption
       (setupExistingMetadata toyEnv (blankMetadata (- 1)) (legacyDocument 0)) = key1
   \<and> isMetadataSetup (setupExistingMetadata toyEnv (blankMetadata (- 1)) (legacyDocument 0))
   \<and> migrationNeeded (setupExistingMetadata toyEnv (blankMetadata (- 1)) (legacyDocument 0))"
proof -
  have v: "versionFromMetadata
      (setupVersionFromExistingMetadata toyEnv (blankMetadata (- 1)) (legacyDocument 0)) = 0"
    by (simp add: setupVersionFromExistingMetadata_def legacyDocument_def ocsEnvelope_def
        legacyInnerDocument_def metadataStringFromOCsDocument_def toObject_def obj_value_def
        toString_def obj_contains_def toInt_def Let_def)
  then have lt: "versionFromMetadata
      (setupVersionFromExistingMetadata toyEnv (blankMetadata (- 1)) (legacyDocument 0)) < 1"
    by simp
  have legacy: "setupExistingLegacyMetadataForMigration toyEnv
      (setupVersionFromExistingMetadata toyEnv (blankMetadata (- 1)) (legacyDocument 0))
      (legacyDocument 0) =
      (blankMetadata 0)\<lparr>
        account := sampleAccount\<lparr>e2eMnemonic := ''onetwo''\<rparr>,
        metadataKeyForEncryption := key1, metadataKeyForDecryption := key1,
        files := [\<lparr>encryptionKey = ''file-key'', mimetype = ''text/plain'',
          initializationVector = ''iv'', authenticationTag = ''tag'',
          encryptedFilename = ''enc1'', originalFilename = ''a.txt''\<rparr>],
        migrationNeeded := True, isMetadataSetupFlag := True\<rparr>"
    by (simp add: setupVersionFromExistingMetadata_def legacyDocument_def ocsEnvelope_def
        legacyInnerDocument_def metadataStringFromOCsDocument_def toObject_def obj_value_def
        toString_def obj_contains_def toInt_def Let_def setupExistingLegacyMetadataForMigration_def
        decryptData_def blankMetadata_def sampleAccount_def key1_def metadataVersion_eq
        legacyFileEntry_def decryptJsonObject_def checkMetadataKeyChecksum_def)
  show ?thesis
    using v setupExistingMetadata_low_version_is_legacy [OF lt] legacy
    by (simp add: isMetadataSetup_def key1_def)
qed

subsection \<open>Failures while the folder users are updated\<close>

text \<open>
  Claim C5 says that when the upload of the metadata of an \<open>Add\<close> or \<open>Remove\<close> operation
  ends with a status other than 200, the job calls \<^verbatim>\<open>unlockFolder\<close> with \<open>success = false\<close>,
  schedules no sub-job and finishes with an error status. The first two hold. The
  status with which the job finishes is the status of the unlock request, whatever it is:
  when the folder is unlocked with status 200 the job emits \<^verbatim>\<open>finished(200)\<close> with an empty
  message, and the failed upload is reported nowhere. The \<open>ReEncrypt\<close> branch of the same
  slot does report the failed upload.
\<close>

theorem upload_failure_reports_unlock_status:
  assumes "operation job = Add \<or> operation job = Remove" and "code \<noteq> 200"
    and "folderUnlockedConnections job = 0"
  shows "runJob order filesBelowPath job [UploadFinished code message, FolderUnlocked httpStatus] =
     (job\<lparr>folderUnlockedConnections := 1\<rparr>,
      [UnlockFolder False,
       Finished httpStatus (if httpStatus \<noteq> 200 then ''Failed to unlock a folder.'' else [])])"
  using assms
  by (auto simp add: deliver_def slotUpdateMetadataFinished_def unlockFolder_def slotFolderUnlocked_def)

text \<open>C5 for the removal of \<open>bob\<close>: the upload fails with 500 and the unlock succeeds.\<close>

theorem upload_failure_reports_unlock_status_witness:
  "runJob sorted_list_of_set sampleFilesBelowPath removeBobJob
     [UploadFinished 500 ''Internal Server Error'', FolderUnlocked 200] =
     (removeBobJob\<lparr>folderUnlockedConnections := 1\<rparr>, [UnlockFolder False, Finished 200 []])"
proof -
  have a: "operation removeBobJob = Add \<or> operation removeBobJob = Remove"
    and c: "folderUnlockedConnections removeBobJob = 0"
    by (simp_all add: removeBobJob_def)
  have b: "(500::int) \<noteq> 200"
    by simp
  show ?thesis
    using upload_failure_reports_unlock_status [OF a b c, where httpStatus = 200]
    by simp
qed

text \<open>
  Claim C6 says that sub-jobs run one at a time and that, when one of them ends with an
  error, no further sub-job is started and the folder is unlocked with \<open>success = false\<close>
  before the parent job finishes with an error. After the error the job does unlock with
  \<open>false\<close> and starts nothing, but as in C5 it then finishes with the status of the unlock
  request: 200 and an empty message when the unlock succeeds.
\<close>

theorem subJob_failure_reports_unlock_status:
  assumes "code \<noteq> 200" and "folderUnlockedConnections job = 0"
  shows "runJob order filesBelowPath job [SubJobFinished sender code message, FolderUnlocked httpStatus] =
     (job\<lparr>folderUnlockedConnections := 1\<rparr>,
      [UnlockFolder False,
       Finished httpStatus (if httpStatus \<noteq> 200 then ''Failed to unlock a folder.'' else [])])"
  using assms
  by (auto simp add: deliver_def slotSubJobFinished_def subJobsFinished_def unlockFolder_def
      slotFolderUnlocked_def)

text \<open>
  C6 for the removal of \<open>bob\<close>: the upload succeeds, the sub-job at address 1 is started
  and fails with 500, and the unlock succeeds.
\<close>

theorem subJob_failure_reports_unlock_status_witness:
  "runJob sorted_list_of_set sampleFilesBelowPath removeBobJob [UploadFinished 200 []] =
     (scheduledJob, [StartSubJob 1])
   \<and> runJob sorted_list_of_set sampleFilesBelowPath scheduledJob
       [SubJobFinished (Some 1) 500 ''Internal Server Error'', FolderUnlocked 200] =
       (scheduledJob\<lparr>folderUnlockedConnections := 1\<rparr>, [UnlockFolder False, Finished 200 []])"
proof -
  have a: "(500::int) \<noteq> 200"
    by simp
  have b: "folderUnlockedConnections scheduledJob = 0"
    by (simp add: scheduledJob_def removeBobJob_def)
  have c: "runJob sorted_list_of_set sampleFilesBelowPath removeBobJob [UploadFinished 200 []] =
     (scheduledJob, [StartSubJob 1])"
    by (simp add: deliver_def slotUpdateMetadataFinished_def scheduleSubJobs_def removeBobJob_def
        sampleHandler_def sampleFilesBelowPath_def startLastSubJob_def newSubJob_def Let_def
        insert_commute scheduledJob_def)
  show ?thesis
    using c subJob_failure_reports_unlock_status [OF a b, where httpStatus = 200]
    by simp
qed

subsection \<open>Removing a directory of which one entry cannot be removed\<close>

text \<open>
  Claim C7 says that when the recursive removal of a directory fails for some nested
  entry, the journal loses the records of exactly the paths that were deleted from disk,
  and the job ends with \<open>NormalError\<close>. The job does end with \<open>NormalError\<close>, but the loop
  that prunes the journal skips every deleted entry whose path starts with the path of
  the directory deleted last, and it compares the two as plain strings. In \<open>/local/A\<close> the
  file \<open>foobar.txt\<close> is deleted, then the directory \<open>foo\<close> is deleted, and \<open>locked.txt\<close>
  cannot be deleted. The loop sees \<open>/local/A/foo\<close> first and then skips
  \<open>/local/A/foobar.txt\<close>, which starts with it: the record of the deleted file stays in the
  journal.
\<close>

theorem localRemove_keeps_record_of_deleted_file:
  "removeRecursivelyResult sampleSurroundings (fullLocalPath sampleSurroundings (itemFile directoryA)) =
     (False, [(''/local/A/foobar.txt'', False), (''/local/A/foo'', True)],
      [''Could not remove /local/A/locked.txt''])
   \<and> PropagateLocalRemove_start sampleSurroundings directoryA (propagatorWith journalA) =
       (propagatorWith [sampleRecord ''A'' True, sampleRecord ''A/foobar.txt'' False,
                        sampleRecord ''A/locked.txt'' False],
        [(NormalError, ''Could not remove /local/A/locked.txt'')])
   \<and> getFileRecord
        (journal (fst (PropagateLocalRemove_start sampleSurroundings directoryA
           (propagatorWith journalA)))) ''A/foobar.txt''
       = Some (sampleRecord ''A/foobar.txt'' False)"
  by (simp add: PropagateLocalRemove_start_def removeRecursively_def sampleSurroundings_def
      directoryA_def propagatorWith_def journalA_def sampleRecord_def fullLocalPath_def
      journalDelete_def deleteFileRecord_def isBelowPath_def startsWith_def getFileRecord_def
      Let_def)

subsection \<open>Renaming a directory\<close>

text \<open>
  \<^verbatim>\<open>updateMetadata\<close> is not part of the sources. The callers in the sources read its
  result in three ways: an error, the answer \<open>Locked\<close>, which the rename of a file and the
  creation of a directory report as a file that is currently in use, and the answer
  \<open>Ok\<close>. When it never answers \<open>Locked\<close> and, whenever it answers, the journal holds a
  record for the destination of the item beside the records it had, a rename of a
  directory that has called \<^verbatim>\<open>done\<close> once, with \<open>Success\<close>, has moved the record of every
  child: the journal has a record for the new path of the child and none for the old one,
  and the map of renamed directories maps the old path of the directory to the new one.
  This is shown for two directory paths of which neither is the beginning of the other,
  and for a child that is not the path under which the directory itself is deleted from
  the journal.
\<close>

lemma localRename_directory_moves_child_record:
  assumes stored: "\<forall>item j result j'. updateMetadata env item j = (Inr result, j')
      \<longrightarrow> result = Ok \<and> journalPaths j' = insert (destination item) (journalPaths j)"
    and dir: "itemIsDirectory item"
    and incomparable: "\<not> startsWith (itemRenameTarget item) (itemFile item)"
      "\<not> startsWith (itemFile item) (itemRenameTarget item)"
    and child: "child \<in> journalPaths (journal p)" "isBelowPath (itemFile item) child"
    and others: "itemOriginalFile item \<noteq> child" "adjustRenamedPath env (itemFile item) \<noteq> child"
    and run: "PropagateLocalRename_start env item p = (p', [(Success, [])])"
  shows "replacePrefix (length (itemFile item)) (itemRenameTarget item) child
       \<in> journalPaths (journal p')
    \<and> child \<notin> journalPaths (journal p')
    \<and> renamedDirectories p' (itemFile item) = Some (itemRenameTarget item)"
proof -
  let ?old = "itemFile item" and ?new = "itemRenameTarget item"
  have contract: "\<forall>item j result j'. updateMetadata env item j = (Inr result, j')
      \<longrightarrow> journalPaths j' = insert (destination item) (journalPaths j)"
    using stored by blast
  obtain j0 where j0: "j0 = journal p \<or> j0 = deleteFileRecord (adjustRenamedPath env ?old) False (journal p)"
    and walk: "renameRecordsBelow env ?old ?new
          (getFilesBelowPath (deleteFileRecord (itemOriginalFile item) False j0) ?old)
          (deleteFileRecord (itemOriginalFile item) False j0) = (journal p', [])"
    and renamed: "renamedDirectories p' = (renamedDirectories p)(?old \<mapsto> ?new)"
    using rename_directory_success [OF dir run] by blast
  let ?j = "deleteFileRecord (itemOriginalFile item) False j0"
  let ?rs = "getFilesBelowPath ?j ?old"
  have nonempty: "?old \<noteq> []"
    using incomparable(1) by (auto simp add: startsWith_def)
  have inj: "child \<in> journalPaths ?j"
    using j0 child(1) others by (auto simp add: journalPaths_deleteFileRecord)
  have below: "\<forall>a \<in> set ?rs. startsWith (recordPath a) ?old \<and> (\<exists>rest. recordPath a = ?old @ rest)"
  proof
    fix a assume "a \<in> set ?rs"
    then have "isBelowPath ?old (recordPath a)"
      by (simp add: getFilesBelowPath_def)
    then have "startsWith (recordPath a) ?old"
      using nonempty isBelowPath_startsWith by blast
    then show "startsWith (recordPath a) ?old \<and> (\<exists>rest. recordPath a = ?old @ rest)"
      by (metis startsWith_def append_take_drop_id)
  qed
  have fresh: "\<forall>a \<in> set ?rs. \<forall>b \<in> set ?rs.
      replacePrefix (length ?old) ?new (recordPath a) \<noteq> recordPath b"
    using below incomparable_prefix [OF incomparable] by metis
  have paths: "journalPaths (journal p') =
      (journalPaths ?j - recordPath ` set ?rs)
        \<union> replacePrefix (length ?old) ?new ` recordPath ` set ?rs"
    using renameRecordsBelow_paths [OF contract fresh walk] .
  have member: "child \<in> recordPath ` set ?rs"
    using inj child(2) by (simp add: journalPaths_getFilesBelowPath)
  have notnew: "child \<notin> replacePrefix (length ?old) ?new ` recordPath ` set ?rs"
  proof
    assume "child \<in> replacePrefix (length ?old) ?new ` recordPath ` set ?rs"
    then obtain a where a: "a \<in> set ?rs" and eq: "child = replacePrefix (length ?old) ?new (recordPath a)"
      by auto
    obtain b where b: "b \<in> set ?rs" and "child = recordPath b"
      using member by auto
    then show False
      using fresh a eq by auto
  qed
  show ?thesis
    using paths member notnew renamed by auto
qed

text \<open>The directory \<open>A\<close> with its child \<open>A/x.txt\<close>, renamed to \<open>B\<close>, when nothing is in use.\<close>

lemma localRename_directory_moves_child_record_example:
  "PropagateLocalRename_start sampleSurroundings renameAtoB (propagatorWith journalAx) =
     (\<lparr>journal = [sampleRecord ''B/x.txt'' False], renamedDirectories = [''A'' \<mapsto> ''B''],
       pinStates = [''A'' \<mapsto> Inherited]\<rparr>,
      [(Success, [])])
   \<and> ''B/x.txt'' \<in> journalPaths (journal (fst (PropagateLocalRename_start sampleSurroundings
         renameAtoB (propagatorWith journalAx))))
   \<and> ''A/x.txt'' \<notin> journalPaths (journal (fst (PropagateLocalRename_start sampleSurroundings
         renameAtoB (propagatorWith journalAx))))
   \<and> renamedDirectories (fst (PropagateLocalRename_start sampleSurroundings renameAtoB
         (propagatorWith journalAx))) ''A'' = Some ''B''"
proof -
  let ?p' = "\<lparr>journal = [sampleRecord ''B/x.txt'' False], renamedDirectories = [''A'' \<mapsto> ''B''],
       pinStates = [''A'' \<mapsto> Inherited]\<rparr>"
  have contract: "\<forall>item j result j'. updateMetadata sampleSurroundings item j = (Inr result, j')
      \<longrightarrow> result = Ok \<and> journalPaths j' = insert (destination item) (journalPaths j)"
    by (auto simp add: sampleSurroundings_def journalPaths_setFileRecord recordOfItem_def)
  have dir: "itemIsDirectory renameAtoB"
    and inc: "\<not> startsWith (itemRenameTarget renameAtoB) (itemFile renameAtoB)"
      "\<not> startsWith (itemFile renameAtoB) (itemRenameTarget renameAtoB)"
    and child: "''A/x.txt'' \<in> journalPaths (journal (propagatorWith journalAx))"
      "isBelowPath (itemFile renameAtoB) ''A/x.txt''"
    and others: "itemOriginalFile renameAtoB \<noteq> ''A/x.txt''"
      "adjustRenamedPath sampleSurroundings (itemFile renameAtoB) \<noteq> ''A/x.txt''"
    by (simp_all add: renameAtoB_def startsWith_def isBelowPath_def journalPaths_def
        propagatorWith_def journalAx_def sampleRecord_def sampleSurroundings_def)
  have run: "PropagateLocalRename_start sampleSurroundings renameAtoB (propagatorWith journalAx) =
      (?p', [(Success, [])])"
    by (simp add: PropagateLocalRename_start_def sampleSurroundings_def renameAtoB_def
        propagatorWith_def journalAx_def sampleRecord_def fullLocalPath_def deleteOldDbRecord_def
        journalDelete_def deleteFileRecord_def getFileRecord_def getFilesBelowPath_def
        isBelowPath_def startsWith_def renameRecord_def replacePrefix_def
        fromSyncJournalFileRecord_def setFileRecord_def recordOfItem_def destination_def
        finishRename_def Let_def)
  have new: "replacePrefix (length (itemFile renameAtoB)) (itemRenameTarget renameAtoB) ''A/x.txt''
      = ''B/x.txt''"
    by (simp add: replacePrefix_def renameAtoB_def)
  show ?thesis
    using localRename_directory_moves_child_record [OF contract dir inc child others run] run new
    by (simp add: renameAtoB_def)
qed

text \<open>
  The rename of a file looks at the answer \<open>Locked\<close>: it ends with a soft error, the file
  is currently in use.
\<close>

lemma localRename_locked_file_is_in_use:
  "PropagateLocalRename_start lockedSurroundings renameXtoY
     (propagatorWith [sampleRecord ''x.txt'' False]) =
     (\<lparr>journal = [], renamedDirectories = Map.empty, pinStates = [''x.txt'' \<mapsto> Inherited]\<rparr>,
      [(SoftError, ''The file x.txt is currently in use'')])"
  by (simp add: PropagateLocalRename_start_def sampleSurroundings_def
        propagatorWith_def journalAx_def sampleRecord_def fullLocalPath_def deleteOldDbRecord_def
        journalDelete_def deleteFileRecord_def getFileRecord_def getFilesBelowPath_def
        isBelowPath_def startsWith_def renameRecord_def replacePrefix_def
        fromSyncJournalFileRecord_def setFileRecord_def recordOfItem_def destination_def
        finishRename_def Let_def journalPaths_def
      lockedSurroundings_def renameXtoY_def)

text \<open>
  Claim C8 says that after a successful \<^verbatim>\<open>PropagateLocalRename\<close> of the directory \<open>A\<close> to
  \<open>B\<close>, whose journal has a record for the child \<open>A/x.txt\<close>, the journal has a record for
  \<open>B/x.txt\<close> and none for \<open>A/x.txt\<close>, and the map of renamed directories maps \<open>A\<close> to \<open>B\<close>.
  The walk over the records below the directory deletes the record of the child, calls
  \<^verbatim>\<open>updateMetadata\<close> for its new path and looks at the result for an error only. When
  \<^verbatim>\<open>updateMetadata\<close> answers \<open>Locked\<close> and stores nothing, the job still calls \<^verbatim>\<open>done\<close> with
  \<open>Success\<close>, and the journal has a record neither for the old path of the child nor for
  the new one. The theorem states this for any directory item and any child below it
  whose new path has no record before the rename.
\<close>

theorem localRename_directory_in_use_loses_child_record:
  assumes inUse: "\<forall>item j. updateMetadata env item j = (Inr Locked, j)"
    and dir: "itemIsDirectory item"
    and child: "child \<in> journalPaths (journal p)" "isBelowPath (itemFile item) child"
    and new: "replacePrefix (length (itemFile item)) (itemRenameTarget item) child
                \<notin> journalPaths (journal p)"
    and others: "itemOriginalFile item \<noteq> child" "adjustRenamedPath env (itemFile item) \<noteq> child"
    and run: "PropagateLocalRename_start env item p = (p', [(Success, [])])"
  shows "replacePrefix (length (itemFile item)) (itemRenameTarget item) child
       \<notin> journalPaths (journal p')
    \<and> child \<notin> journalPaths (journal p')
    \<and> renamedDirectories p' (itemFile item) = Some (itemRenameTarget item)"
proof -
  let ?old = "itemFile item" and ?new = "itemRenameTarget item"
  obtain j0 where j0: "j0 = journal p \<or> j0 = deleteFileRecord (adjustRenamedPath env ?old) False (journal p)"
    and walk: "renameRecordsBelow env ?old ?new
          (getFilesBelowPath (deleteFileRecord (itemOriginalFile item) False j0) ?old)
          (deleteFileRecord (itemOriginalFile item) False j0) = (journal p', [])"
    and renamed: "renamedDirectories p' = (renamedDirectories p)(?old \<mapsto> ?new)"
    using rename_directory_success [OF dir run] by blast
  let ?j = "deleteFileRecord (itemOriginalFile item) False j0"
  let ?rs = "getFilesBelowPath ?j ?old"
  have sub: "journalPaths ?j \<subseteq> journalPaths (journal p)"
    using j0 by (auto simp add: journalPaths_deleteFileRecord)
  have inj: "child \<in> journalPaths ?j"
    using j0 child(1) others by (auto simp add: journalPaths_deleteFileRecord)
  have member: "child \<in> recordPath ` set ?rs"
    using inj child(2) by (simp add: journalPaths_getFilesBelowPath)
  have moved: "child \<noteq> replacePrefix (length ?old) ?new child"
    using child(1) new by auto
  have paths: "journalPaths (journal p') =
      journalPaths ?j - {path \<in> recordPath ` set ?rs. path \<noteq> replacePrefix (length ?old) ?new path}"
    using renameRecordsBelow_in_use [OF inUse walk] .
  show ?thesis
    using paths sub member moved new renamed by auto
qed

text \<open>
  C8 for the directory \<open>A\<close> with its child \<open>A/x.txt\<close>, renamed to \<open>B\<close> while \<open>x.txt\<close> is in
  use: the job reports \<open>Success\<close> and the journal is empty.
\<close>

theorem localRename_directory_in_use_loses_child_record_witness:
  "''A/x.txt'' \<in> journalPaths (journal (propagatorWith journalAx))
   \<and> PropagateLocalRename_start lockedSurroundings renameAtoB (propagatorWith journalAx) =
       (\<lparr>journal = [], renamedDirectories = [''A'' \<mapsto> ''B''],
         pinStates = [''A'' \<mapsto> Inherited]\<rparr>,
        [(Success, [])])
   \<and> ''B/x.txt'' \<notin> journalPaths (journal (fst (PropagateLocalRename_start lockedSurroundings
         renameAtoB (propagatorWith journalAx))))
   \<and> ''A/x.txt'' \<notin> journalPaths (journal (fst (PropagateLocalRename_start lockedSurroundings
         renameAtoB (propagatorWith journalAx))))
   \<and> renamedDirectories (fst (PropagateLocalRename_start lockedSurroundings renameAtoB
         (propagatorWith journalAx))) ''A'' = Some ''B''"
proof -
  let ?p' = "\<lparr>journal = [], renamedDirectories = [''A'' \<mapsto> ''B''],
       pinStates = [''A'' \<mapsto> Inherited]\<rparr>"
  have inUse: "\<forall>item j. updateMetadata lockedSurroundings item j = (Inr Locked, j)"
    by (simp add: lockedSurroundings_def)
  have dir: "itemIsDirectory renameAtoB"
    and child: "''A/x.txt'' \<in> journalPaths (journal (propagatorWith journalAx))"
      "isBelowPath (itemFile renameAtoB) ''A/x.txt''"
    and new: "replacePrefix (length (itemFile renameAtoB)) (itemRenameTarget renameAtoB) ''A/x.txt''
        \<notin> journalPaths (journal (propagatorWith journalAx))"
    and others: "itemOriginalFile renameAtoB \<noteq> ''A/x.txt''"
      "adjustRenamedPath lockedSurroundings (itemFile renameAtoB) \<noteq> ''A/x.txt''"
    by (simp_all add: renameAtoB_def startsWith_def isBelowPath_def journalPaths_def
        propagatorWith_def journalAx_def sampleRecord_def sampleSurroundings_def
        lockedSurroundings_def replacePrefix_def)
  have run: "PropagateLocalRename_start lockedSurroundings renameAtoB (propagatorWith journalAx) =
      (?p', [(Success, [])])"
    by (simp add: PropagateLocalRename_start_def sampleSurroundings_def
        propagatorWith_def journalAx_def sampleRecord_def fullLocalPath_def deleteOldDbRecord_def
        journalDelete_def deleteFileRecord_def getFileRecord_def getFilesBelowPath_def
        isBelowPath_def startsWith_def renameRecord_def replacePrefix_def
        fromSyncJournalFileRecord_def setFileRecord_def recordOfItem_def destination_def
        finishRename_def Let_def journalPaths_def lockedSurroundings_def renameAtoB_def)
  have newPath: "replacePrefix (length (itemFile renameAtoB)) (itemRenameTarget renameAtoB) ''A/x.txt''
      = ''B/x.txt''"
    by (simp add: replacePrefix_def renameAtoB_def)
  show ?thesis
    using localRename_directory_in_use_loses_child_record [OF inUse dir child new others run]
      run newPath child(1)
    by (simp add: renameAtoB_def)
qed

end
